theory Spec2Isabelle
  imports Main "HOL-Library.Word"
begin

section \<open>Geometry of the Go image package, as the window code uses it\<close>

text \<open>
  The window code computes with \<^verbatim>\<open>image.Point\<close> and \<^verbatim>\<open>image.Rectangle\<close>.
  A point is a pair of Go ints (first component X, second component Y); a rectangle has
  the two corner points Min and Max and contains the points with
  \<^verbatim>\<open>Min.X <= x < Max.X\<close> and \<^verbatim>\<open>Min.Y <= y < Max.Y\<close>.
  Go's int is 64 bits wide; the model uses unbounded integers, which agrees with the program
  as long as no coordinate arithmetic leaves the 64-bit range (window coordinates are 32-bit
  values of the window system).
\<close>

type_synonym point = "int \<times> int"

record rectangle =
  rMin :: point
  rMax :: point

definition Pt :: "int \<Rightarrow> int \<Rightarrow> point" where
  "Pt x y = (x, y)"

definition ZR :: rectangle where
  "ZR = \<lparr>rMin = (0, 0), rMax = (0, 0)\<rparr>"

text \<open>\<^verbatim>\<open>image.Rect(x0, y0, x1, y1)\<close>: the corners are swapped where needed, so the result
  is well formed.\<close>

definition image_Rect :: "int \<Rightarrow> int \<Rightarrow> int \<Rightarrow> int \<Rightarrow> rectangle" where
  "image_Rect x0 y0 x1 y1 =
     \<lparr>rMin = (if x0 > x1 then x1 else x0, if y0 > y1 then y1 else y0),
      rMax = (if x0 > x1 then x0 else x1, if y0 > y1 then y0 else y1)\<rparr>"

definition Rectangle_Dx :: "rectangle \<Rightarrow> int" where
  "Rectangle_Dx r = fst (rMax r) - fst (rMin r)"

definition Rectangle_Dy :: "rectangle \<Rightarrow> int" where
  "Rectangle_Dy r = snd (rMax r) - snd (rMin r)"

definition Rectangle_Empty :: "rectangle \<Rightarrow> bool" where
  "Rectangle_Empty r \<longleftrightarrow> fst (rMin r) \<ge> fst (rMax r) \<or> snd (rMin r) \<ge> snd (rMax r)"

definition Rectangle_Intersect :: "rectangle \<Rightarrow> rectangle \<Rightarrow> rectangle" where
  "Rectangle_Intersect r s =
     (let r1 = \<lparr>rMin = (if fst (rMin r) < fst (rMin s) then fst (rMin s) else fst (rMin r),
                        if snd (rMin r) < snd (rMin s) then snd (rMin s) else snd (rMin r)),
                rMax = (if fst (rMax r) > fst (rMax s) then fst (rMax s) else fst (rMax r),
                        if snd (rMax r) > snd (rMax s) then snd (rMax s) else snd (rMax r))\<rparr>
      in if Rectangle_Empty r1 then ZR else r1)"

definition Rectangle_Union :: "rectangle \<Rightarrow> rectangle \<Rightarrow> rectangle" where
  "Rectangle_Union r s =
     (if Rectangle_Empty r then s
      else if Rectangle_Empty s then r
      else \<lparr>rMin = (if fst (rMin r) > fst (rMin s) then fst (rMin s) else fst (rMin r),
                    if snd (rMin r) > snd (rMin s) then snd (rMin s) else snd (rMin r)),
            rMax = (if fst (rMax r) < fst (rMax s) then fst (rMax s) else fst (rMax r),
                    if snd (rMax r) < snd (rMax s) then snd (rMax s) else snd (rMax r))\<rparr>)"

definition Rectangle_In :: "rectangle \<Rightarrow> rectangle \<Rightarrow> bool" where
  "Rectangle_In r s \<longleftrightarrow>
     (if Rectangle_Empty r then True
      else fst (rMin s) \<le> fst (rMin r) \<and> fst (rMax r) \<le> fst (rMax s) \<and>
           snd (rMin s) \<le> snd (rMin r) \<and> snd (rMax r) \<le> snd (rMax s))"

definition Rectangle_Overlaps :: "rectangle \<Rightarrow> rectangle \<Rightarrow> bool" where
  "Rectangle_Overlaps r s \<longleftrightarrow>
     \<not> Rectangle_Empty r \<and> \<not> Rectangle_Empty s \<and>
     fst (rMin r) < fst (rMax s) \<and> fst (rMin s) < fst (rMax r) \<and>
     snd (rMin r) < snd (rMax s) \<and> snd (rMin s) < snd (rMax r)"

definition Rectangle_Add :: "rectangle \<Rightarrow> point \<Rightarrow> rectangle" where
  "Rectangle_Add r p =
     \<lparr>rMin = (fst (rMin r) + fst p, snd (rMin r) + snd p),
      rMax = (fst (rMax r) + fst p, snd (rMax r) + snd p)\<rparr>"

definition Point_In :: "point \<Rightarrow> rectangle \<Rightarrow> bool" where
  "Point_In p r \<longleftrightarrow>
     fst (rMin r) \<le> fst p \<and> fst p < fst (rMax r) \<and>
     snd (rMin r) \<le> snd p \<and> snd p < snd (rMax r)"

section \<open>The pixel surface\<close>

text \<open>
  \<^verbatim>\<open>color.RGBA\<close> has four 8-bit channels. An \<^verbatim>\<open>*image.RGBA\<close> is its bounds
  \<^verbatim>\<open>Rect\<close> and its pixel buffer \<^verbatim>\<open>Pix\<close>; the buffer is modelled by the colour it
  holds at each coordinate, and is read through \<^verbatim>\<open>RGBAAt\<close> and written through
  \<^verbatim>\<open>SetRGBA\<close>, which both check the bounds as the Go methods do.
\<close>

datatype rgba = RGBA "8 word" "8 word" "8 word" "8 word"

definition transparent :: rgba where
  "transparent = RGBA 0 0 0 0"

record image =
  Rect :: rectangle
  Pix :: "point \<Rightarrow> rgba"

datatype panic = HugeOrNegativeDimensions | DivideByZero

text \<open>\<^verbatim>\<open>image.NewRGBA(r)\<close> allocates a zeroed buffer; it panics when a side is negative or
  the buffer length \<^verbatim>\<open>4 * Dx * Dy\<close> does not fit an int.\<close>

definition NewRGBA :: "rectangle \<Rightarrow> panic + image" where
  "NewRGBA r =
     (if Rectangle_Dx r < 0 \<or> Rectangle_Dy r < 0 \<or> 4 * Rectangle_Dx r * Rectangle_Dy r \<ge> 2 ^ 63
      then Inl HugeOrNegativeDimensions
      else Inr \<lparr>Rect = r, Pix = (\<lambda>p. transparent)\<rparr>)"

definition Bounds :: "image \<Rightarrow> rectangle" where
  "Bounds m = Rect m"

definition RGBAAt :: "image \<Rightarrow> int \<Rightarrow> int \<Rightarrow> rgba" where
  "RGBAAt m x y = (if Point_In (x, y) (Rect m) then Pix m (x, y) else transparent)"

definition SetRGBA :: "image \<Rightarrow> int \<Rightarrow> int \<Rightarrow> rgba \<Rightarrow> image" where
  "SetRGBA m x y c = (if Point_In (x, y) (Rect m) then m\<lparr>Pix := (Pix m)((x, y) := c)\<rparr> else m)"

text \<open>
  \<^verbatim>\<open>draw.Draw(dst, r, src, sp, draw.Src)\<close> for two RGBA images: the rectangle is clipped
  to the bounds of \<open>dst\<close> and to the bounds of \<open>src\<close> moved by \<open>r.Min - sp\<close>; every
  pixel \<open>p\<close> of the clipped rectangle receives the source pixel at \<open>p - r.Min + sp\<close>.
\<close>

definition draw_Draw_Src :: "image \<Rightarrow> rectangle \<Rightarrow> image \<Rightarrow> point \<Rightarrow> image" where
  "draw_Draw_Src dst r src sp =
     (let orig = rMin r;
          r1 = Rectangle_Intersect r (Bounds dst);
          r2 = Rectangle_Intersect r1
                 (Rectangle_Add (Bounds src) (fst orig - fst sp, snd orig - snd sp))
      in if Rectangle_Empty r2 then dst
         else dst\<lparr>Pix := (\<lambda>p. if Point_In p r2
                               then RGBAAt src (fst p - fst orig + fst sp) (snd p - snd orig + snd sp)
                               else Pix dst p)\<rparr>)"

text \<open>The pixel buffer of an image in row-major order, as \<^verbatim>\<open>tmp.Pix\<close> is handed to the
  texture upload.\<close>

definition Pix_rows :: "image \<Rightarrow> rgba list" where
  "Pix_rows m =
     concat (map (\<lambda>y. map (\<lambda>x. RGBAAt m x y) [fst (rMin (Rect m)) .. fst (rMax (Rect m)) - 1])
                 [snd (rMin (Rect m)) .. snd (rMax (Rect m)) - 1])"

section \<open>Commands issued by the render thread\<close>

text \<open>
  The render thread owns the OpenGL context. Its effect on the outside world is the
  sequence of OpenGL calls (and \<^verbatim>\<open>SwapBuffers\<close> calls on the window) it issues; the model
  records that sequence in a log, one entry per call, with the arguments that vary. Object
  names are \<^verbatim>\<open>uint32\<close>, coordinates are converted to \<^verbatim>\<open>int32\<close> as the source does
  (\<open>word_of_int\<close> keeps the low 32 bits, subtraction wraps). A caller's GPU closure is
  opaque: it is identified by a number and logged as one entry.
\<close>

datatype glcap = DEPTH_TEST | SCISSOR_TEST | BLEND

datatype glfactor = ONE | ONE_MINUS_SRC_ALPHA

datatype gltexparam = TEXTURE_MIN_FILTER | TEXTURE_MAG_FILTER | TEXTURE_WRAP_S | TEXTURE_WRAP_T

datatype gltexvalue = LINEAR | CLAMP_TO_EDGE

datatype glcmd =
    TextureSubImage2D "32 word" "32 word" "32 word" "32 word" "32 word" "rgba list"
  | Enable glcap
  | Disable glcap
  | DepthFunc_LESS
  | Scissor "32 word" "32 word" "32 word" "32 word"
  | Clear_DEPTH_BUFFER_BIT
  | UseProgram "32 word"
  | BlendFunc glfactor glfactor
  | BindVertexArray "32 word"
  | ActiveTexture_TEXTURE0
  | BindTexture_2D "32 word"
  | DrawArrays_TRIANGLES "32 word" "32 word"
  | Flush
  | SwapBuffers
  | DeleteTextures "32 word"
  | GenTextures "32 word"
  | TexParameteri_2D gltexparam gltexvalue
  | TexImage2D_RGBA "32 word" "32 word" "rgba list"
  | CallGL nat

definition int32 :: "int \<Rightarrow> 32 word" where
  "int32 i = word_of_int i"

section \<open>State of the render thread\<close>

text \<open>
  \<open>Win\<close> holds the data fields of the struct \<^verbatim>\<open>Win\<close>: the surface, the DPI ratio and
  the three GPU handles (the variant without GPU closures calls the handles
  \<^verbatim>\<open>screenTexture\<close> and \<^verbatim>\<open>shaderProgram\<close>); its channels appear as the messages and
  actions of the two threads. The render thread's state adds the local variable
  \<^verbatim>\<open>totalR\<close> of \<^verbatim>\<open>openGLThread\<close>, the place the thread is at, the number of times it
  has executed \<^verbatim>\<open>close(w.finish)\<close>, and the log of commands. Two values come from outside the
  program: the size \<^verbatim>\<open>GetFramebufferSize\<close> reports, and the name the driver hands out
  at the next \<^verbatim>\<open>GenTextures\<close> (modelled as a counter).
\<close>

datatype place = Outer | Inner | Returned | Crashed panic

record Win =
  img :: image
  ratio :: int
  guiTexture :: "32 word"
  guiShader :: "32 word"
  quadVao :: "32 word"

record glthread = Win +
  totalR :: rectangle
  pc :: place
  finish_closed :: nat
  gl_log :: "glcmd list"
  framebuffer :: "int \<times> int"
  next_name :: "32 word"

definition running :: "glthread \<Rightarrow> bool" where
  "running st \<longleftrightarrow> pc st = Outer \<or> pc st = Inner"

definition gl :: "glcmd list \<Rightarrow> glthread \<Rightarrow> glthread" where
  "gl cs st = st\<lparr>gl_log := gl_log st @ cs\<rparr>"

text \<open>Sequencing after a call that may have panicked: nothing more runs after a panic.\<close>

definition and_then :: "glthread \<Rightarrow> (glthread \<Rightarrow> glthread) \<Rightarrow> glthread" where
  "and_then st f = (case pc st of Crashed e \<Rightarrow> st | _ \<Rightarrow> f st)"

primrec for_range :: "nat \<Rightarrow> ('s \<Rightarrow> 's) \<Rightarrow> 's \<Rightarrow> 's" where
  "for_range 0 body s = s"
| "for_range (Suc n) body s = for_range n body (body s)"

subsection \<open>The flush of the variant with GPU closures: openGLRenderGui\<close>

definition renderGuiPass :: "rectangle \<Rightarrow> glthread \<Rightarrow> glthread" where
  "renderGuiPass r st =
     (let hei = snd (framebuffer st)
      in gl [Scissor (int32 (fst (rMin r))) (int32 hei - int32 (snd (rMax r)))
                     (int32 (Rectangle_Dx r)) (int32 (Rectangle_Dy r)),
             Enable SCISSOR_TEST,
             Clear_DEPTH_BUFFER_BIT,
             Disable SCISSOR_TEST,
             UseProgram (guiShader st),
             Enable BLEND,
             BlendFunc ONE ONE_MINUS_SRC_ALPHA,
             BindVertexArray (quadVao st),
             ActiveTexture_TEXTURE0,
             BindTexture_2D (guiTexture st),
             DrawArrays_TRIANGLES 0 (6 * 2 * 3),
             SwapBuffers] st)"

definition openGLRenderGui :: "rectangle \<Rightarrow> glthread \<Rightarrow> glthread" where
  "openGLRenderGui r0 st =
     (let bounds = Bounds (img st);
          r = Rectangle_Intersect r0 bounds
      in if Rectangle_Empty r then st
         else (case NewRGBA r of
                 Inl e \<Rightarrow> st\<lparr>pc := Crashed e\<rparr>
               | Inr tmp0 \<Rightarrow>
                   (let tmp = draw_Draw_Src tmp0 r (img st) (rMin r);
                        st1 = gl [TextureSubImage2D (guiTexture st)
                                    (int32 (fst (rMin r))) (int32 (snd (rMin r)))
                                    (int32 (Rectangle_Dx r)) (int32 (Rectangle_Dy r))
                                    (Pix_rows tmp),
                                  Enable DEPTH_TEST,
                                  DepthFunc_LESS] st;
                        st2 = for_range 2 (renderGuiPass r) st1
                    in gl [Disable BLEND] st2)))"

subsection \<open>The flush of the variant without GPU closures: openGLFlush\<close>

definition openGLFlush :: "rectangle \<Rightarrow> glthread \<Rightarrow> glthread" where
  "openGLFlush r0 st =
     (let bounds = Bounds (img st);
          r = Rectangle_Intersect r0 bounds
      in if Rectangle_Empty r then st
         else (case NewRGBA r of
                 Inl e \<Rightarrow> st\<lparr>pc := Crashed e\<rparr>
               | Inr tmp0 \<Rightarrow>
                   (let tmp = draw_Draw_Src tmp0 r (img st) (rMin r)
                    in gl [TextureSubImage2D (guiTexture st)
                             (int32 (fst (rMin r))) (int32 (snd (rMin r)))
                             (int32 (Rectangle_Dx r)) (int32 (Rectangle_Dy r))
                             (Pix_rows tmp),
                           UseProgram (guiShader st),
                           BindVertexArray (quadVao st),
                           ActiveTexture_TEXTURE0,
                           BindTexture_2D (guiTexture st),
                           DrawArrays_TRIANGLES 0 (6 * 2 * 3),
                           Flush] st)))"

section \<open>The render thread's loop\<close>

text \<open>
  \<^verbatim>\<open>openGLThread\<close> receives from three channels and from a timer. The model is driven by
  the sequence of receives that succeed, in the order in which the thread's
  \<^verbatim>\<open>select\<close> statements take them: a new size, a draw closure, the draw channel found
  closed, a GPU closure, the GPU channel found closed, or the flush timer firing.

  A draw closure receives the surface as a \<^verbatim>\<open>draw.Image\<close>: it can read it, set pixels
  through \<^verbatim>\<open>Set\<close> (which ignores points outside the bounds), and it returns the rectangle
  it reports as touched. It is modelled by the pixel writes it performs and the rectangle it
  returns, both depending on the surface it is given.
\<close>

type_synonym draw_closure = "image \<Rightarrow> (point \<times> rgba) list \<times> rectangle"

datatype msg =
    NewSize rectangle
  | DrawFn draw_closure
  | DrawClosed
  | GLFn nat
  | GLClosed
  | Tick

definition draw_Draw_Uniform :: "image \<Rightarrow> rectangle \<Rightarrow> rgba \<Rightarrow> image" where
  "draw_Draw_Uniform dst r c =
     (let r1 = Rectangle_Intersect r (Bounds dst)
      in if Rectangle_Empty r1 then dst
         else dst\<lparr>Pix := (\<lambda>p. if Point_In p r1 then c else Pix dst p)\<rparr>)"

definition run_closure :: "draw_closure \<Rightarrow> image \<Rightarrow> image \<times> rectangle" where
  "run_closure d m =
     (let (writes, r) = d m
      in (fold (\<lambda>(p, c) m'. SetRGBA m' (fst p) (snd p) c) writes m, r))"

text \<open>\<^verbatim>\<open>newScreenTexture\<close> with the fill colour as a parameter: transparent in the
  variant with GPU closures.\<close>

definition newScreenTexture :: "rgba \<Rightarrow> int \<Rightarrow> int \<Rightarrow> glthread \<Rightarrow> glthread \<times> 32 word" where
  "newScreenTexture fill width height st =
     (case NewRGBA (image_Rect 0 0 width height) of
        Inl e \<Rightarrow> (st\<lparr>pc := Crashed e\<rparr>, 0)
      | Inr rgba0 \<Rightarrow>
          (let rgba = draw_Draw_Uniform rgba0 (Bounds rgba0) fill;
               texture = next_name st
           in (gl [GenTextures texture,
                   ActiveTexture_TEXTURE0,
                   BindTexture_2D texture,
                   TexParameteri_2D TEXTURE_MIN_FILTER LINEAR,
                   TexParameteri_2D TEXTURE_MAG_FILTER LINEAR,
                   TexParameteri_2D TEXTURE_WRAP_S CLAMP_TO_EDGE,
                   TexParameteri_2D TEXTURE_WRAP_T CLAMP_TO_EDGE,
                   TexImage2D_RGBA (int32 (Rectangle_Dx (Rect rgba))) (int32 (Rectangle_Dy (Rect rgba)))
                     (Pix_rows rgba)]
                  (st\<lparr>next_name := next_name st + 1\<rparr>),
               texture)))"

text \<open>The three statements both variants execute on a new size: allocate, copy the old
  surface over, replace.\<close>

definition resizeImage :: "image \<Rightarrow> rectangle \<Rightarrow> panic + image" where
  "resizeImage old r =
     (case NewRGBA r of
        Inl e \<Rightarrow> Inl e
      | Inr new \<Rightarrow> Inr (draw_Draw_Src new (Bounds old) old (rMin (Bounds old))))"

subsection \<open>The variant with GPU closures (win/win.go)\<close>

definition on_newSize :: "rectangle \<Rightarrow> glthread \<Rightarrow> glthread" where
  "on_newSize r st =
     (case resizeImage (img st) r of
        Inl e \<Rightarrow> st\<lparr>pc := Crashed e\<rparr>
      | Inr new \<Rightarrow>
          (let st1 = st\<lparr>img := new, totalR := Rectangle_Union (totalR st) r\<rparr>;
               st2 = gl [DeleteTextures (guiTexture st1)] st1;
               (st3, texture) = newScreenTexture transparent
                                  (Rectangle_Dx (Bounds new)) (Rectangle_Dy (Bounds new)) st2
           in and_then st3 (\<lambda>s. s\<lparr>guiTexture := texture\<rparr>)))"

definition on_draw :: "draw_closure \<Rightarrow> glthread \<Rightarrow> glthread" where
  "on_draw d st =
     (let (new, r) = run_closure d (img st)
      in st\<lparr>img := new, totalR := Rectangle_Union (totalR st) r\<rparr>)"

definition on_closed :: "glthread \<Rightarrow> glthread" where
  "on_closed st = st\<lparr>finish_closed := Suc (finish_closed st), pc := Returned\<rparr>"

definition on_drawGL :: "nat \<Rightarrow> glthread \<Rightarrow> glthread" where
  "on_drawGL g st =
     and_then (openGLRenderGui (totalR st) (gl [CallGL g] st)) (gl [SwapBuffers])"

definition on_timer :: "glthread \<Rightarrow> glthread" where
  "on_timer st =
     and_then (openGLRenderGui (totalR st) st)
       (\<lambda>s. (gl [SwapBuffers] s)\<lparr>totalR := ZR, pc := Outer\<rparr>)"

text \<open>One receive. At \<open>Outer\<close> the thread is at the first \<^verbatim>\<open>select\<close>, which declares
  \<^verbatim>\<open>totalR\<close> afresh and has no timer case (a timer firing there is nobody's message);
  at \<open>Inner\<close> it is at the \<^verbatim>\<open>select\<close> of the inner loop. A thread that has returned
  or panicked receives nothing.\<close>

definition serve :: "msg \<Rightarrow> glthread \<Rightarrow> glthread" where
  "serve m st =
     (case m of
        NewSize r \<Rightarrow> on_newSize r st
      | DrawFn d \<Rightarrow> on_draw d st
      | DrawClosed \<Rightarrow> on_closed st
      | GLFn g \<Rightarrow> on_drawGL g st
      | GLClosed \<Rightarrow> on_closed st
      | Tick \<Rightarrow> on_timer st)"

definition openGLThread_step :: "glthread \<Rightarrow> msg \<Rightarrow> glthread" where
  "openGLThread_step st m =
     (case pc st of
        Outer \<Rightarrow> (case m of
                    Tick \<Rightarrow> st
                  | _ \<Rightarrow> (let st1 = serve m (st\<lparr>totalR := ZR\<rparr>)
                          in if pc st1 = Outer then st1\<lparr>pc := Inner\<rparr> else st1))
      | Inner \<Rightarrow> serve m st
      | Returned \<Rightarrow> st
      | Crashed e \<Rightarrow> st)"

fun openGLThread_loop :: "glthread \<Rightarrow> msg list \<Rightarrow> glthread" where
  "openGLThread_loop st [] = st"
| "openGLThread_loop st (m # ms) = openGLThread_loop (openGLThread_step st m) ms"

text \<open>The thread from its start, after \<^verbatim>\<open>MakeContextCurrent\<close> and \<^verbatim>\<open>openGLSetup\<close>
  have filled in the three handles: one render of the whole surface, one swap, then the
  loop.\<close>

definition openGLThread :: "glthread \<Rightarrow> msg list \<Rightarrow> glthread" where
  "openGLThread st ms =
     openGLThread_loop
       (and_then (openGLRenderGui (Bounds (img st)) (st\<lparr>totalR := ZR, pc := Outer\<rparr>))
          (gl [SwapBuffers]))
       ms"

subsection \<open>The variant without GPU closures (the second window file)\<close>

definition on_newSize_p2 :: "rectangle \<Rightarrow> glthread \<Rightarrow> glthread" where
  "on_newSize_p2 r st =
     (case resizeImage (img st) r of
        Inl e \<Rightarrow> st\<lparr>pc := Crashed e\<rparr>
      | Inr new \<Rightarrow> st\<lparr>img := new, totalR := Rectangle_Union (totalR st) r\<rparr>)"

definition on_timer_p2 :: "glthread \<Rightarrow> glthread" where
  "on_timer_p2 st =
     and_then (openGLFlush (totalR st) st) (\<lambda>s. s\<lparr>totalR := ZR, pc := Outer\<rparr>)"

text \<open>This variant has no GPU channel: a message of that channel is nobody's message.\<close>

definition serve_p2 :: "msg \<Rightarrow> glthread \<Rightarrow> glthread" where
  "serve_p2 m st =
     (case m of
        NewSize r \<Rightarrow> on_newSize_p2 r st
      | DrawFn d \<Rightarrow> on_draw d st
      | DrawClosed \<Rightarrow> on_closed st
      | GLFn g \<Rightarrow> st
      | GLClosed \<Rightarrow> st
      | Tick \<Rightarrow> on_timer_p2 st)"

definition openGLThread_p2_step :: "glthread \<Rightarrow> msg \<Rightarrow> glthread" where
  "openGLThread_p2_step st m =
     (case pc st of
        Outer \<Rightarrow> (case m of
                    Tick \<Rightarrow> st
                  | GLFn g \<Rightarrow> st
                  | GLClosed \<Rightarrow> st
                  | _ \<Rightarrow> (let st1 = serve_p2 m (st\<lparr>totalR := ZR\<rparr>)
                          in if pc st1 = Outer then st1\<lparr>pc := Inner\<rparr> else st1))
      | Inner \<Rightarrow> serve_p2 m st
      | Returned \<Rightarrow> st
      | Crashed e \<Rightarrow> st)"

fun openGLThread_p2_loop :: "glthread \<Rightarrow> msg list \<Rightarrow> glthread" where
  "openGLThread_p2_loop st [] = st"
| "openGLThread_p2_loop st (m # ms) = openGLThread_p2_loop (openGLThread_p2_step st m) ms"

definition openGLThread_p2 :: "glthread \<Rightarrow> msg list \<Rightarrow> glthread" where
  "openGLThread_p2 st ms =
     openGLThread_p2_loop (openGLFlush (Bounds (img st)) (st\<lparr>totalR := ZR, pc := Outer\<rparr>)) ms"

section \<open>Input events\<close>

datatype Button = ButtonLeft | ButtonRight | ButtonMiddle

datatype Key =
    KeyLeft | KeyRight | KeyUp | KeyDown | KeyEscape | KeySpace | KeyBackspace | KeyDelete
  | KeyEnter | KeyTab | KeyHome | KeyEnd | KeyPageUp | KeyPageDown | KeyShift | KeyCtrl | KeyAlt

text \<open>The event variants of the window package, and \<^verbatim>\<open>gui.Resize\<close> of the root package.
  A rune is a Unicode code point.\<close>

datatype event =
    WiClose
  | MoMove point
  | MoDown point Button
  | MoUp point Button
  | MoScroll point
  | KbType int
  | KbDown Key
  | KbUp Key
  | KbRepeat Key
  | Resize rectangle

text \<open>The codes of the window system library (GLFW 3.3) that the tables and the callbacks
  name: mouse buttons, keys and actions are C integers.\<close>

definition glfw_MouseButtonLeft :: int where "glfw_MouseButtonLeft = 0"
definition glfw_MouseButtonRight :: int where "glfw_MouseButtonRight = 1"
definition glfw_MouseButtonMiddle :: int where "glfw_MouseButtonMiddle = 2"

definition glfw_Release :: int where "glfw_Release = 0"
definition glfw_Press :: int where "glfw_Press = 1"
definition glfw_Repeat :: int where "glfw_Repeat = 2"

definition glfw_KeySpace :: int where "glfw_KeySpace = 32"
definition glfw_KeyEscape :: int where "glfw_KeyEscape = 256"
definition glfw_KeyEnter :: int where "glfw_KeyEnter = 257"
definition glfw_KeyTab :: int where "glfw_KeyTab = 258"
definition glfw_KeyBackspace :: int where "glfw_KeyBackspace = 259"
definition glfw_KeyDelete :: int where "glfw_KeyDelete = 261"
definition glfw_KeyRight :: int where "glfw_KeyRight = 262"
definition glfw_KeyLeft :: int where "glfw_KeyLeft = 263"
definition glfw_KeyDown :: int where "glfw_KeyDown = 264"
definition glfw_KeyUp :: int where "glfw_KeyUp = 265"
definition glfw_KeyPageUp :: int where "glfw_KeyPageUp = 266"
definition glfw_KeyPageDown :: int where "glfw_KeyPageDown = 267"
definition glfw_KeyHome :: int where "glfw_KeyHome = 268"
definition glfw_KeyEnd :: int where "glfw_KeyEnd = 269"
definition glfw_KeyLeftShift :: int where "glfw_KeyLeftShift = 340"
definition glfw_KeyLeftControl :: int where "glfw_KeyLeftControl = 341"
definition glfw_KeyLeftAlt :: int where "glfw_KeyLeftAlt = 342"
definition glfw_KeyRightShift :: int where "glfw_KeyRightShift = 344"
definition glfw_KeyRightControl :: int where "glfw_KeyRightControl = 345"
definition glfw_KeyRightAlt :: int where "glfw_KeyRightAlt = 346"

definition buttons :: "int \<rightharpoonup> Button" where
  "buttons = map_of
     [(glfw_MouseButtonLeft, ButtonLeft),
      (glfw_MouseButtonRight, ButtonRight),
      (glfw_MouseButtonMiddle, ButtonMiddle)]"

definition keys :: "int \<rightharpoonup> Key" where
  "keys = map_of
     [(glfw_KeyLeft, KeyLeft),
      (glfw_KeyRight, KeyRight),
      (glfw_KeyUp, KeyUp),
      (glfw_KeyDown, KeyDown),
      (glfw_KeyEscape, KeyEscape),
      (glfw_KeySpace, KeySpace),
      (glfw_KeyBackspace, KeyBackspace),
      (glfw_KeyDelete, KeyDelete),
      (glfw_KeyEnter, KeyEnter),
      (glfw_KeyTab, KeyTab),
      (glfw_KeyHome, KeyHome),
      (glfw_KeyEnd, KeyEnd),
      (glfw_KeyPageUp, KeyPageUp),
      (glfw_KeyPageDown, KeyPageDown),
      (glfw_KeyLeftShift, KeyShift),
      (glfw_KeyRightShift, KeyShift),
      (glfw_KeyLeftControl, KeyCtrl),
      (glfw_KeyRightControl, KeyCtrl),
      (glfw_KeyLeftAlt, KeyAlt),
      (glfw_KeyRightAlt, KeyAlt)]"

section \<open>The event thread\<close>

text \<open>
  What \<^verbatim>\<open>eventThread\<close> does to the outside is a sequence of actions: a send on
  \<^verbatim>\<open>w.eventsIn\<close>, a send on \<^verbatim>\<open>w.newSize\<close>, closing \<^verbatim>\<open>w.eventsIn\<close>, destroying the
  window. After registering its callbacks and sending the first event, the thread polls:
  each round either finds \<^verbatim>\<open>w.finish\<close> closed or lets the window system run callbacks.
  The model is driven by the sequence of these occurrences. The callbacks for the cursor
  and for scrolling receive floating-point numbers and convert them with \<^verbatim>\<open>int(...)\<close>
  first; the model's inputs carry the converted integers.
\<close>

datatype action = Send event | SendNewSize rectangle | CloseEventsIn | DestroyWindow

datatype os_input =
    CursorPos int int
  | MouseButton int int
  | Scroll int int
  | CharTyped int
  | KeyInput int int
  | FramebufferSize int int
  | CloseRequest
  | FinishClosed

record evthread =
  moX :: int
  moY :: int
  actions :: "action list"
  returned :: bool

definition act :: "action list \<Rightarrow> evthread \<Rightarrow> evthread" where
  "act as s = s\<lparr>actions := actions s @ as\<rparr>"

definition cursorPosCallback :: "'a Win_scheme \<Rightarrow> int \<Rightarrow> int \<Rightarrow> evthread \<Rightarrow> evthread" where
  "cursorPosCallback w x y s =
     act [Send (MoMove (Pt (x * ratio w) (y * ratio w)))] (s\<lparr>moX := x, moY := y\<rparr>)"

definition mouseButtonCallback :: "'a Win_scheme \<Rightarrow> int \<Rightarrow> int \<Rightarrow> evthread \<Rightarrow> evthread" where
  "mouseButtonCallback w button action s =
     (case buttons button of
        None \<Rightarrow> s
      | Some b \<Rightarrow>
          if action = glfw_Press
          then act [Send (MoDown (Pt (moX s * ratio w) (moY s * ratio w)) b)] s
          else if action = glfw_Release
          then act [Send (MoUp (Pt (moX s * ratio w) (moY s * ratio w)) b)] s
          else s)"

definition scrollCallback :: "'a Win_scheme \<Rightarrow> int \<Rightarrow> int \<Rightarrow> evthread \<Rightarrow> evthread" where
  "scrollCallback w xoff yoff s = act [Send (MoScroll (Pt xoff yoff))] s"

definition charCallback :: "'a Win_scheme \<Rightarrow> int \<Rightarrow> evthread \<Rightarrow> evthread" where
  "charCallback w r s = act [Send (KbType r)] s"

definition keyCallback :: "'a Win_scheme \<Rightarrow> int \<Rightarrow> int \<Rightarrow> evthread \<Rightarrow> evthread" where
  "keyCallback w key action s =
     (case keys key of
        None \<Rightarrow> s
      | Some k \<Rightarrow>
          if action = glfw_Press then act [Send (KbDown k)] s
          else if action = glfw_Release then act [Send (KbUp k)] s
          else if action = glfw_Repeat then act [Send (KbRepeat k)] s
          else s)"

definition framebufferSizeCallback :: "'a Win_scheme \<Rightarrow> int \<Rightarrow> int \<Rightarrow> evthread \<Rightarrow> evthread" where
  "framebufferSizeCallback w wd ht s =
     (let r = image_Rect 0 0 wd ht in act [SendNewSize r, Send (Resize r)] s)"

definition closeCallback :: "'a Win_scheme \<Rightarrow> evthread \<Rightarrow> evthread" where
  "closeCallback w s = act [Send WiClose] s"

definition eventThread_poll :: "'a Win_scheme \<Rightarrow> evthread \<Rightarrow> os_input \<Rightarrow> evthread" where
  "eventThread_poll w s i =
     (if returned s then s
      else case i of
        CursorPos x y \<Rightarrow> cursorPosCallback w x y s
      | MouseButton button action \<Rightarrow> mouseButtonCallback w button action s
      | Scroll xoff yoff \<Rightarrow> scrollCallback w xoff yoff s
      | CharTyped r \<Rightarrow> charCallback w r s
      | KeyInput key action \<Rightarrow> keyCallback w key action s
      | FramebufferSize wd ht \<Rightarrow> framebufferSizeCallback w wd ht s
      | CloseRequest \<Rightarrow> closeCallback w s
      | FinishClosed \<Rightarrow> (act [CloseEventsIn, DestroyWindow] s)\<lparr>returned := True\<rparr>)"

fun eventThread_loop :: "'a Win_scheme \<Rightarrow> evthread \<Rightarrow> os_input list \<Rightarrow> evthread" where
  "eventThread_loop w s [] = s"
| "eventThread_loop w s (i # is) = eventThread_loop w (eventThread_poll w s i) is"

definition eventThread :: "'a Win_scheme \<Rightarrow> os_input list \<Rightarrow> evthread" where
  "eventThread w is =
     eventThread_loop w
       \<lparr>moX = 0, moY = 0, actions = [Send (Resize (Bounds (img w)))], returned = False\<rparr> is"

text \<open>
  Modelled from the spec: \<^verbatim>\<open>gui.MakeEventsChan\<close> of the root package is not among the
  sources. The spec calls it a hand-off point turning the callbacks' events into a single
  outward event sequence, closed at shutdown: the consumer of \<^verbatim>\<open>Events()\<close> receives the
  events sent on \<^verbatim>\<open>w.eventsIn\<close>, in the order sent, up to the close.
\<close>

fun Events :: "action list \<Rightarrow> event list" where
  "Events [] = []"
| "Events (Send e # as) = e # Events as"
| "Events (CloseEventsIn # as) = []"
| "Events (a # as) = Events as"

section \<open>Construction\<close>

text \<open>Go's integer division truncates towards zero and panics on a zero divisor.\<close>

definition go_quot :: "int \<Rightarrow> int \<Rightarrow> int" where
  "go_quot a b = sgn a * sgn b * (\<bar>a\<bar> div \<bar>b\<bar>)"

definition go_div :: "int \<Rightarrow> int \<Rightarrow> panic + int" where
  "go_div a b = (if b = 0 then Inl DivideByZero else Inr (go_quot a b))"

record options =
  title :: string
  width :: int
  height :: int
  resizable :: bool
  borderless :: bool
  maximized :: bool

definition Title :: "string \<Rightarrow> options \<Rightarrow> options" where
  "Title t o' = o'\<lparr>title := t\<rparr>"

definition Size :: "int \<Rightarrow> int \<Rightarrow> options \<Rightarrow> options" where
  "Size w h o' = o'\<lparr>width := w, height := h\<rparr>"

definition Resizable :: "options \<Rightarrow> options" where
  "Resizable o' = o'\<lparr>resizable := True\<rparr>"

definition Borderless :: "options \<Rightarrow> options" where
  "Borderless o' = o'\<lparr>borderless := True\<rparr>"

definition Maximized :: "options \<Rightarrow> options" where
  "Maximized o' = o'\<lparr>maximized := True\<rparr>"

text \<open>
  The window system is outside the program. What the constructor needs of it: whether
  \<^verbatim>\<open>glfw.Init\<close> succeeds, and, for a window created with given options, whether
  \<^verbatim>\<open>glfw.CreateWindow\<close> succeeds and which framebuffer size the new window reports.
\<close>

record glfw =
  init_ok :: bool
  create_window :: "options \<Rightarrow> (int \<times> int) option"

datatype 'a result = Returns 'a | ReturnsError | Panics panic

text \<open>\<^verbatim>\<open>makeGLFWWin\<close>: the window is represented by the framebuffer size it reports; the
  options are passed by pointer and come back changed when the window starts maximized.\<close>

definition makeGLFWWin :: "glfw \<Rightarrow> options \<Rightarrow> ((int \<times> int) \<times> options) option" where
  "makeGLFWWin env o' =
     (if \<not> init_ok env then None
      else case create_window env o' of
             None \<Rightarrow> None
           | Some fb \<Rightarrow>
               Some (fb, if maximized o' then o'\<lparr>width := fst fb, height := snd fb\<rparr> else o'))"

definition default_options :: options where
  "default_options =
     \<lparr>title = [], width = 640, height = 480,
      resizable = False, borderless = False, maximized = False\<rparr>"

text \<open>The two window creations of \<^verbatim>\<open>New\<close> with the ratio computed between them; the
  result is the ratio and the options as they stand afterwards.\<close>

definition hiDPI :: "glfw \<Rightarrow> options \<Rightarrow> (int \<times> options) result" where
  "hiDPI env o0 =
     (case makeGLFWWin env o0 of
        None \<Rightarrow> ReturnsError
      | Some (fb, o1) \<Rightarrow>
          (case go_div (fst fb) (width o1) of
             Inl e \<Rightarrow> Panics e
           | Inr q \<Rightarrow>
               (let rat = (if q < 1 then 1 else q);
                    o2 = (if rat \<noteq> 1
                          then o1\<lparr>width := go_quot (width o1) rat,
                                  height := go_quot (height o1) rat\<rparr>
                          else o1)
                in case makeGLFWWin env o2 of
                     None \<Rightarrow> ReturnsError
                   | Some (fb2, o3) \<Rightarrow> Returns (rat, o3))))"

definition New :: "glfw \<Rightarrow> (options \<Rightarrow> options) list \<Rightarrow> Win result" where
  "New env opts =
     (case hiDPI env (fold (\<lambda>opt o'. opt o') opts default_options) of
        ReturnsError \<Rightarrow> ReturnsError
      | Panics e \<Rightarrow> Panics e
      | Returns (rat, o3) \<Rightarrow>
          (case NewRGBA (image_Rect 0 0 (width o3 * rat) (height o3 * rat)) of
             Inl e \<Rightarrow> Panics e
           | Inr m \<Rightarrow>
               Returns \<lparr>img = m, ratio = rat, guiTexture = 0, guiShader = 0, quadVao = 0\<rparr>))"

section \<open>Notions used in the statements\<close>

text \<open>A rectangle \<^verbatim>\<open>image.NewRGBA\<close> accepts.\<close>

definition fits :: "rectangle \<Rightarrow> bool" where
  "fits r \<longleftrightarrow>
     0 \<le> Rectangle_Dx r \<and> 0 \<le> Rectangle_Dy r \<and> 4 * Rectangle_Dx r * Rectangle_Dy r < 2 ^ 63"

text \<open>The messages that carry work for the render thread: a new size that can be
  allocated, a draw closure, a GPU closure. The variant without GPU closures serves the
  first two.\<close>

fun serviced :: "msg \<Rightarrow> bool" where
  "serviced (NewSize r) = fits r"
| "serviced (DrawFn d) = True"
| "serviced (GLFn g) = True"
| "serviced m = False"

fun serviced_p2 :: "msg \<Rightarrow> bool" where
  "serviced_p2 (NewSize r) = fits r"
| "serviced_p2 (DrawFn d) = True"
| "serviced_p2 m = False"

text \<open>
  The rectangles a sequence of messages reports, in order: the rectangle each draw closure
  returns when run on the surface as it stands at that moment, and each new size. This
  follows the wording of the specification (the union of each closure's reported
  rectangle, together with the resize rectangles), not the loop.
\<close>

fun reported :: "image \<Rightarrow> msg list \<Rightarrow> rectangle list" where
  "reported m [] = []"
| "reported m (NewSize r # ms) =
     r # reported (case resizeImage m r of Inl e \<Rightarrow> m | Inr m' \<Rightarrow> m') ms"
| "reported m (DrawFn d # ms) = snd (run_closure d m) # reported (fst (run_closure d m)) ms"
| "reported m (x # ms) = reported m ms"

fun surface_after :: "image \<Rightarrow> msg list \<Rightarrow> image" where
  "surface_after m [] = m"
| "surface_after m (NewSize r # ms) =
     surface_after (case resizeImage m r of Inl e \<Rightarrow> m | Inr m' \<Rightarrow> m') ms"
| "surface_after m (DrawFn d # ms) = surface_after (fst (run_closure d m)) ms"
| "surface_after m (x # ms) = surface_after m ms"

definition union_of :: "rectangle list \<Rightarrow> rectangle" where
  "union_of rs = foldl Rectangle_Union ZR rs"

text \<open>The commands an operation of the render thread adds to the log.\<close>

definition issued :: "(glthread \<Rightarrow> glthread) \<Rightarrow> glthread \<Rightarrow> glcmd list" where
  "issued f st = drop (length (gl_log st)) (gl_log (f st))"

text \<open>The pixels of a surface inside a rectangle, row by row.\<close>

definition region_pixels :: "image \<Rightarrow> rectangle \<Rightarrow> rgba list" where
  "region_pixels m r =
     concat (map (\<lambda>y. map (\<lambda>x. RGBAAt m x y) [fst (rMin r) .. fst (rMax r) - 1])
                 [snd (rMin r) .. snd (rMax r) - 1])"

section \<open>Concrete inputs\<close>

definition red :: rgba where
  "red = RGBA 255 0 0 255"

definition surface0 :: image where
  "surface0 = \<lparr>Rect = image_Rect 0 0 4 3, Pix = (\<lambda>p. if p = (1, 1) then red else transparent)\<rparr>"

definition thread0 :: glthread where
  "thread0 =
     \<lparr>img = surface0, ratio = 1, guiTexture = 1, guiShader = 2, quadVao = 3,
      totalR = ZR, pc = Outer, finish_closed = 0, gl_log = [],
      framebuffer = (4, 3), next_name = 4\<rparr>"

text \<open>A draw closure that paints one pixel and reports it.\<close>

definition dot :: draw_closure where
  "dot m = ([((2, 1), red)], image_Rect 2 1 3 2)"

text \<open>The render thread after it has serviced that closure.\<close>

definition thread1 :: glthread where
  "thread1 = openGLThread_loop thread0 [DrawFn dot]"

definition corner :: draw_closure where
  "corner m = ([((0, 0), red)], image_Rect 0 0 1 1)"

text \<open>A window system whose framebuffer has twice the size asked for.\<close>

definition hidpi_env :: glfw where
  "hidpi_env = \<lparr>init_ok = True, create_window = (\<lambda>o'. Some (2 * width o', 2 * height o'))\<rparr>"

text \<open>The window \<open>New\<close> returns there for the size 6 by 4, and the options it ends with.\<close>

definition win0 :: Win where
  "win0 =
     \<lparr>img = \<lparr>Rect = image_Rect 0 0 6 4, Pix = (\<lambda>p. transparent)\<rparr>,
      ratio = 2, guiTexture = 0, guiShader = 0, quadVao = 0\<rparr>"

definition options0 :: options where
  "options0 =
     \<lparr>title = [], width = 3, height = 2,
      resizable = False, borderless = False, maximized = False\<rparr>"

section \<open>A flush of nothing\<close>

lemma Intersect_Empty_iff:
  "Rectangle_Empty (Rectangle_Intersect r s) \<longleftrightarrow> Rectangle_Empty r \<or> \<not> Rectangle_Overlaps r s"
  by (auto simp: Rectangle_Intersect_def Rectangle_Empty_def Rectangle_Overlaps_def ZR_def Let_def)

text \<open>
  Claim C8. A flush whose damage rectangle is empty, or does not overlap the bounds of the
  surface, issues no command at all (no texture upload, no draw call) and leaves the whole
  state of the render thread as it was: it does not panic either. This holds for the flush
  of both variants.
\<close>

theorem flush_outside_is_noop:
  "Rectangle_Empty r \<or> \<not> Rectangle_Overlaps r (Bounds (img st)) \<Longrightarrow>
     openGLRenderGui r st = st \<and> openGLFlush r st = st"
  by (simp add: openGLRenderGui_def openGLFlush_def Let_def Intersect_Empty_iff)

theorem flush_outside_is_noop_witness:
  "\<not> Rectangle_Overlaps (image_Rect 7 5 8 6) (Bounds (img thread0)) \<and>
   openGLRenderGui (image_Rect 7 5 8 6) thread0 = thread0 \<and>
   openGLFlush (image_Rect 7 5 8 6) thread0 = thread0"
  using flush_outside_is_noop[of "image_Rect 7 5 8 6" thread0]
  by (simp add: Rectangle_Overlaps_def image_Rect_def Bounds_def thread0_def surface0_def)

section \<open>Unsupported input codes\<close>

lemma eventThread_loop_append:
  "eventThread_loop w s (is @ js) = eventThread_loop w (eventThread_loop w s is) js"
  by (induction "is" arbitrary: s) simp_all

lemma eventThread_snoc:
  "eventThread w (is @ [i]) = eventThread_poll w (eventThread w is) i"
  by (simp add: eventThread_def eventThread_loop_append)

text \<open>
  Claim C9. A mouse-button callback whose button is not in the table \<open>buttons\<close>, and a
  key callback whose key is not in the table \<open>keys\<close>, leave the event thread exactly as
  it was after the inputs before: no event is sent, nothing else happens.
\<close>

theorem unsupported_code_dropped:
  "(buttons button = None \<longrightarrow> eventThread w (ins @ [MouseButton button action]) = eventThread w ins) \<and>
   (keys key = None \<longrightarrow> eventThread w (ins @ [KeyInput key action]) = eventThread w ins)"
  by (simp add: eventThread_snoc eventThread_poll_def mouseButtonCallback_def keyCallback_def)

lemmas glfw_codes = glfw_MouseButtonLeft_def glfw_MouseButtonRight_def glfw_MouseButtonMiddle_def
  glfw_Release_def glfw_Press_def glfw_Repeat_def
  glfw_KeySpace_def glfw_KeyEscape_def glfw_KeyEnter_def glfw_KeyTab_def glfw_KeyBackspace_def
  glfw_KeyDelete_def glfw_KeyRight_def glfw_KeyLeft_def glfw_KeyDown_def glfw_KeyUp_def
  glfw_KeyPageUp_def glfw_KeyPageDown_def glfw_KeyHome_def glfw_KeyEnd_def glfw_KeyLeftShift_def
  glfw_KeyLeftControl_def glfw_KeyLeftAlt_def glfw_KeyRightShift_def glfw_KeyRightControl_def
  glfw_KeyRightAlt_def

theorem unsupported_code_dropped_witness:
  "buttons 3 = None \<and> keys 65 = None \<and>
   eventThread win0 ([CursorPos 1 1] @ [MouseButton 3 glfw_Press]) = eventThread win0 [CursorPos 1 1] \<and>
   eventThread win0 ([CursorPos 1 1] @ [KeyInput 65 glfw_Press]) = eventThread win0 [CursorPos 1 1]"
  using unsupported_code_dropped[where button=3 and key=65 and w=win0 and ins="[CursorPos 1 1]" and action=glfw_Press]
  by (simp add: buttons_def keys_def glfw_codes)


section \<open>Resizing the surface\<close>

lemma Point_In_Intersect:
  "Point_In p (Rectangle_Intersect r s) \<longleftrightarrow> Point_In p r \<and> Point_In p s"
  by (auto simp: Point_In_def Rectangle_Intersect_def Rectangle_Empty_def ZR_def Let_def)

lemma Point_In_not_Empty: "Point_In p r \<Longrightarrow> \<not> Rectangle_Empty r"
  by (auto simp: Point_In_def Rectangle_Empty_def)

lemma NewRGBA_fits: "fits r \<Longrightarrow> NewRGBA r = Inr \<lparr>Rect = r, Pix = (\<lambda>p. transparent)\<rparr>"
  by (simp add: NewRGBA_def fits_def not_le)

lemma NewRGBA_Inr: "NewRGBA r = Inr m \<Longrightarrow> fits r \<and> m = \<lparr>Rect = r, Pix = (\<lambda>p. transparent)\<rparr>"
  by (auto simp: NewRGBA_def fits_def not_le split: if_splits)

lemma Rect_draw_Draw_Src [simp]: "Rect (draw_Draw_Src dst r src sp) = Rect dst"
  by (simp add: draw_Draw_Src_def Let_def)

lemma resizeImage_fits:
  "fits r \<Longrightarrow> \<exists>new. resizeImage old r = Inr new"
  by (simp add: resizeImage_def NewRGBA_fits)

lemma resizeImage_Rect: "resizeImage old r = Inr new \<Longrightarrow> Rect new = r \<and> fits r"
  by (auto simp: resizeImage_def split: sum.splits dest: NewRGBA_Inr)

lemma Rectangle_Add_zero [simp]: "Rectangle_Add r (0, 0) = r"
  by (simp add: Rectangle_Add_def)

lemma resizeImage_pixels:
  assumes "resizeImage old r = Inr new" and "Point_In (x, y) r"
  shows "RGBAAt new x y = (if Point_In (x, y) (Bounds old) then RGBAAt old x y else transparent)"
proof -
  from assms(1) obtain m0 where m0: "NewRGBA r = Inr m0"
    and new: "new = draw_Draw_Src m0 (Bounds old) old (rMin (Bounds old))"
    by (auto simp: resizeImage_def split: sum.splits)
  from m0 have m0': "m0 = \<lparr>Rect = r, Pix = (\<lambda>p. transparent)\<rparr>"
    by (simp add: NewRGBA_Inr)
  let ?r2 = "Rectangle_Intersect (Rectangle_Intersect (Bounds old) r) (Bounds old)"
  have in2: "Point_In (x, y) ?r2 \<longleftrightarrow> Point_In (x, y) (Bounds old)"
    using assms(2) by (simp add: Point_In_Intersect)
  show ?thesis
  proof (cases "Point_In (x, y) (Bounds old)")
    case True
    then have "\<not> Rectangle_Empty ?r2" using in2 Point_In_not_Empty by blast
    then show ?thesis
      using True in2 assms(2)
      by (simp add: new m0' draw_Draw_Src_def Let_def Bounds_def RGBAAt_def)
  next
    case False
    then show ?thesis
      using in2 assms(2)
      by (simp add: new m0' draw_Draw_Src_def Let_def Bounds_def RGBAAt_def)
  qed
qed

lemma fits_image_Rect:
  "fits r \<Longrightarrow> fits (image_Rect 0 0 (Rectangle_Dx r) (Rectangle_Dy r))"
  by (simp add: fits_def image_Rect_def Rectangle_Dx_def Rectangle_Dy_def)

lemma img_gl [simp]: "img (gl cs st) = img st"
  by (simp add: gl_def)

lemma newScreenTexture_fits:
  "fits (image_Rect 0 0 a b) \<Longrightarrow>
     img (fst (newScreenTexture c a b st)) = img st \<and> pc (fst (newScreenTexture c a b st)) = pc st
     \<and> totalR (fst (newScreenTexture c a b st)) = totalR st"
  by (simp add: newScreenTexture_def NewRGBA_fits Let_def gl_def)

lemma on_newSize_img:
  assumes "resizeImage (img st) r = Inr new" and "running st"
  shows "img (on_newSize r st) = new \<and> pc (on_newSize r st) = pc st
         \<and> totalR (on_newSize r st) = Rectangle_Union (totalR st) r"
proof -
  from assms(1) have r: "Rect new = r" "fits r" by (simp_all add: resizeImage_Rect)
  let ?st2 = "gl [DeleteTextures (guiTexture st)] (st\<lparr>img := new, totalR := Rectangle_Union (totalR st) r\<rparr>)"
  have f: "fits (image_Rect 0 0 (Rectangle_Dx (Bounds new)) (Rectangle_Dy (Bounds new)))"
    using r by (simp add: Bounds_def fits_image_Rect)
  note n = newScreenTexture_fits[OF f, of transparent ?st2]
  show ?thesis
    using assms n
    by (auto simp: on_newSize_def Let_def and_then_def running_def gl_def split: prod.splits place.splits)
qed

lemma on_newSize_p2_img:
  assumes "resizeImage (img st) r = Inr new"
  shows "img (on_newSize_p2 r st) = new \<and> pc (on_newSize_p2 r st) = pc st
         \<and> totalR (on_newSize_p2 r st) = Rectangle_Union (totalR st) r"
  using assms by (simp add: on_newSize_p2_def)

lemma step_NewSize_img:
  assumes "resizeImage (img st) r = Inr new" and "running st"
  shows "img (openGLThread_step st (NewSize r)) = new"
    and "img (openGLThread_p2_step st (NewSize r)) = new"
  using on_newSize_img[OF assms(1), of  ] on_newSize_img[of "st\<lparr>totalR := ZR\<rparr>" r new] assms
    on_newSize_p2_img[of st r new] on_newSize_p2_img[of "st\<lparr>totalR := ZR\<rparr>" r new]
  by (auto simp: openGLThread_step_def openGLThread_p2_step_def serve_def serve_p2_def running_def Let_def)

text \<open>
  Claim C5. When the render thread (of either variant) receives a new size \<open>r\<close> that can
  be allocated, the new surface has the bounds \<open>r\<close>; each of its pixels that lies in the
  old bounds keeps the colour it had, and each of its pixels outside the old bounds is
  transparent.
\<close>

theorem resize_keeps_overlap:
  assumes "running st" and "fits r" and "Point_In (x, y) r"
  shows "Bounds (img (openGLThread_step st (NewSize r))) = r \<and>
         Bounds (img (openGLThread_p2_step st (NewSize r))) = r \<and>
         RGBAAt (img (openGLThread_step st (NewSize r))) x y =
           (if Point_In (x, y) (Bounds (img st)) then RGBAAt (img st) x y else transparent) \<and>
         RGBAAt (img (openGLThread_p2_step st (NewSize r))) x y =
           (if Point_In (x, y) (Bounds (img st)) then RGBAAt (img st) x y else transparent)"
proof -
  from assms(2) obtain new where new: "resizeImage (img st) r = Inr new"
    using resizeImage_fits by blast
  show ?thesis
    using step_NewSize_img[OF new assms(1)] resizeImage_pixels[OF new assms(3)]
      resizeImage_Rect[OF new]
    by (simp add: Bounds_def)
qed

theorem resize_keeps_overlap_witness:
  "running thread0 \<and> fits (image_Rect 0 0 6 2) \<and> Point_In (1, 1) (image_Rect 0 0 6 2) \<and>
   Point_In (1, 1) (Bounds (img thread0)) \<and>
   RGBAAt (img thread0) 1 1 = red \<and>
   RGBAAt (img (openGLThread_step thread0 (NewSize (image_Rect 0 0 6 2)))) 1 1 = red \<and>
   RGBAAt (img (openGLThread_p2_step thread0 (NewSize (image_Rect 0 0 6 2)))) 1 1 = red"
proof -
  have a: "running thread0" by (simp add: running_def thread0_def)
  have b: "fits (image_Rect 0 0 6 2)"
    by (simp add: fits_def image_Rect_def Rectangle_Dx_def Rectangle_Dy_def)
  have c: "Point_In (1, 1) (image_Rect 0 0 6 2)" by (simp add: Point_In_def image_Rect_def)
  have d: "Point_In (1, 1) (Bounds (img thread0))"
    by (simp add: Point_In_def image_Rect_def Bounds_def thread0_def surface0_def)
  have e: "RGBAAt (img thread0) 1 1 = red"
    by (simp add: RGBAAt_def Point_In_def image_Rect_def thread0_def surface0_def)
  show ?thesis
    using resize_keeps_overlap[OF a b c] a b c d e by simp
qed

section \<open>The first event\<close>

lemma actions_poll_prefix: "\<exists>rest. actions (eventThread_poll w s i) = actions s @ rest"
  by (cases i)
     (auto simp: eventThread_poll_def act_def cursorPosCallback_def mouseButtonCallback_def
        scrollCallback_def charCallback_def keyCallback_def framebufferSizeCallback_def
        closeCallback_def Let_def split: option.splits)

lemma actions_loop_prefix: "\<exists>rest. actions (eventThread_loop w s ins) = actions s @ rest"
proof (induction ins arbitrary: s)
  case Nil
  then show ?case by simp
next
  case (Cons i ins)
  from actions_poll_prefix obtain r1 where r1: "actions (eventThread_poll w s i) = actions s @ r1"
    by blast
  from Cons.IH obtain r2 where
    "actions (eventThread_loop w (eventThread_poll w s i) ins) = actions (eventThread_poll w s i) @ r2"
    by blast
  with r1 show ?case by simp
qed

lemma New_Returns:
  assumes "hiDPI env (fold (\<lambda>opt o'. opt o') opts default_options) = Returns (rat, o3)"
    and "New env opts = Returns w"
  shows "ratio w = rat" and "Bounds (img w) = image_Rect 0 0 (width o3 * rat) (height o3 * rat)"
  using assms by (auto simp: New_def Bounds_def split: sum.splits dest: NewRGBA_Inr)

lemma New_fits: "New env opts = Returns w \<Longrightarrow> fits (Bounds (img w))"
  by (auto simp: New_def Bounds_def split: result.splits sum.splits dest!: NewRGBA_Inr)

text \<open>
  Claim C10. For a window that \<open>New\<close> has returned, with \<open>rat\<close> the ratio and \<open>o3\<close>
  the options as they stand when \<open>New\<close> builds the surface: the surface has the bounds
  \<open>(0, 0, width * ratio, height * ratio)\<close>; with no input from the window system the event
  thread sends exactly one event, a \<open>Resize\<close> with these bounds; and whatever the window
  system delivers afterwards, the first event the consumer receives is this \<open>Resize\<close>.
\<close>

theorem first_event_is_resize:
  assumes "hiDPI env (fold (\<lambda>opt o'. opt o') opts default_options) = Returns (rat, o3)"
    and "New env opts = Returns w"
  shows "ratio w = rat \<and>
         Bounds (img w) = image_Rect 0 0 (width o3 * rat) (height o3 * rat) \<and>
         actions (eventThread w []) = [Send (Resize (Bounds (img w)))] \<and>
         take 1 (Events (actions (eventThread w ins))) = [Resize (Bounds (img w))]"
proof -
  obtain rest where "actions (eventThread w ins) = [Send (Resize (Bounds (img w)))] @ rest"
    unfolding eventThread_def
    using actions_loop_prefix[of w "\<lparr>moX = 0, moY = 0, actions = [Send (Resize (Bounds (img w)))], returned = False\<rparr>" ins]
    by auto
  then have "take 1 (Events (actions (eventThread w ins))) = [Resize (Bounds (img w))]"
    by simp
  then show ?thesis
    using New_Returns[OF assms] by (simp add: eventThread_def)
qed

lemma hiDPI0: "hiDPI hidpi_env (fold (\<lambda>opt o'. opt o') [Size 6 4] default_options) = Returns (2, options0)"
  by (simp add: hiDPI_def makeGLFWWin_def hidpi_env_def Size_def default_options_def go_div_def
      go_quot_def options0_def)

lemma New0: "New hidpi_env [Size 6 4] = Returns win0"
  using hiDPI0
  by (simp add: New_def options0_def NewRGBA_def image_Rect_def Rectangle_Dx_def
      Rectangle_Dy_def win0_def)

theorem first_event_is_resize_witness:
  "hiDPI hidpi_env (fold (\<lambda>opt o'. opt o') [Size 6 4] default_options) = Returns (2, options0) \<and>
   New hidpi_env [Size 6 4] = Returns win0 \<and>
   ratio win0 = 2 \<and>
   Bounds (img win0) = image_Rect 0 0 6 4 \<and>
   actions (eventThread win0 []) = [Send (Resize (image_Rect 0 0 6 4))] \<and>
   take 1 (Events (actions (eventThread win0 [CursorPos 1 1, CloseRequest]))) =
     [Resize (image_Rect 0 0 6 4)]"
  using first_event_is_resize[OF hiDPI0 New0, of "[CursorPos 1 1, CloseRequest]"] hiDPI0 New0
  by (simp add: options0_def)

section \<open>The DPI ratio and the pointer coordinates\<close>





lemma poll_not_returned:
  "i \<noteq> FinishClosed \<Longrightarrow> returned (eventThread_poll w s i) = returned s"
  by (cases i)
     (auto simp: eventThread_poll_def act_def mouseButtonCallback_def cursorPosCallback_def
        scrollCallback_def charCallback_def keyCallback_def framebufferSizeCallback_def
        closeCallback_def Let_def split: option.splits)








text \<open>A window that starts maximized has its requested size overwritten by the framebuffer
  size before the ratio is computed, so its ratio is 1 whatever the display: here the
  framebuffer is twice the requested size.\<close>

lemma maximized_ratio_is_one:
  "hiDPI hidpi_env (fold (\<lambda>opt o'. opt o') [Size 6 4, Maximized] default_options) =
     Returns (1, \<lparr>title = [], width = 24, height = 16,
                  resizable = False, borderless = False, maximized = True\<rparr>)"
  by (simp add: hiDPI_def makeGLFWWin_def hidpi_env_def Size_def Maximized_def default_options_def
      go_div_def go_quot_def)

section \<open>Accumulation of the damage\<close>

lemma fits_Intersect:
  assumes "fits s" and "\<not> Rectangle_Empty (Rectangle_Intersect r s)"
  shows "fits (Rectangle_Intersect r s)"
proof -
  let ?i = "Rectangle_Intersect r s"
  have ne: "?i \<noteq> ZR" using assms(2) by (auto simp: Rectangle_Empty_def ZR_def)
  have x: "0 < Rectangle_Dx ?i" "Rectangle_Dx ?i \<le> Rectangle_Dx s"
    using assms(2) ne
    by (auto simp: Rectangle_Intersect_def Rectangle_Empty_def Rectangle_Dx_def Let_def split: if_splits)
  have y: "0 < Rectangle_Dy ?i" "Rectangle_Dy ?i \<le> Rectangle_Dy s"
    using assms(2) ne
    by (auto simp: Rectangle_Intersect_def Rectangle_Empty_def Rectangle_Dy_def Let_def split: if_splits)
  have "Rectangle_Dx ?i * Rectangle_Dy ?i \<le> Rectangle_Dx s * Rectangle_Dy s"
    using x y by (intro mult_mono) auto
  then have "4 * Rectangle_Dx ?i * Rectangle_Dy ?i \<le> 4 * Rectangle_Dx s * Rectangle_Dy s"
    by simp
  with assms(1) x y show ?thesis by (simp add: fits_def)
qed

lemma Intersect_idem:
  "Rectangle_Intersect (Rectangle_Intersect r s) s = Rectangle_Intersect r s"
  by (auto simp: Rectangle_Intersect_def Rectangle_Empty_def ZR_def Let_def)

lemma Rectangle_In_Union: "Rectangle_In r (Rectangle_Union r s)"
  by (auto simp: Rectangle_In_def Rectangle_Union_def Rectangle_Empty_def)

lemma Rectangle_In_refl: "Rectangle_In r r"
  by (simp add: Rectangle_In_def)

lemma Rectangle_In_Intersect: "Rectangle_In (Rectangle_Intersect r s) s"
  by (auto simp: Rectangle_In_def Rectangle_Intersect_def Rectangle_Empty_def ZR_def Let_def)

text \<open>What a flush leaves alone.\<close>

lemma for_range_2: "for_range 2 body s = body (body s)"
  by (simp add: numeral_2_eq_2)

lemma openGLRenderGui_fields:
  assumes "fits (Bounds (img st))"
  shows "img (openGLRenderGui r st) = img st" and "totalR (openGLRenderGui r st) = totalR st"
    and "pc (openGLRenderGui r st) = pc st"
    and "finish_closed (openGLRenderGui r st) = finish_closed st"
proof -
  let ?i = "Rectangle_Intersect r (Bounds (img st))"
  have "\<not> Rectangle_Empty ?i \<Longrightarrow> NewRGBA ?i = Inr \<lparr>Rect = ?i, Pix = (\<lambda>p. transparent)\<rparr>"
    using assms by (simp add: fits_Intersect NewRGBA_fits)
  then show "img (openGLRenderGui r st) = img st" and "totalR (openGLRenderGui r st) = totalR st"
    and "pc (openGLRenderGui r st) = pc st"
    and "finish_closed (openGLRenderGui r st) = finish_closed st"
    by (auto simp: openGLRenderGui_def Let_def for_range_2 renderGuiPass_def gl_def)
qed

lemma openGLFlush_fields:
  assumes "fits (Bounds (img st))"
  shows "img (openGLFlush r st) = img st" and "totalR (openGLFlush r st) = totalR st"
    and "pc (openGLFlush r st) = pc st"
    and "finish_closed (openGLFlush r st) = finish_closed st"
proof -
  let ?i = "Rectangle_Intersect r (Bounds (img st))"
  have "\<not> Rectangle_Empty ?i \<Longrightarrow> NewRGBA ?i = Inr \<lparr>Rect = ?i, Pix = (\<lambda>p. transparent)\<rparr>"
    using assms by (simp add: fits_Intersect NewRGBA_fits)
  then show "img (openGLFlush r st) = img st" and "totalR (openGLFlush r st) = totalR st"
    and "pc (openGLFlush r st) = pc st"
    and "finish_closed (openGLFlush r st) = finish_closed st"
    by (auto simp: openGLFlush_def Let_def gl_def)
qed

lemma openGLRenderGui_clip:
  "openGLRenderGui r st = openGLRenderGui (Rectangle_Intersect r (Bounds (img st))) st"
  by (simp add: openGLRenderGui_def Intersect_idem)

lemma openGLFlush_clip:
  "openGLFlush r st = openGLFlush (Rectangle_Intersect r (Bounds (img st))) st"
  by (simp add: openGLFlush_def Intersect_idem)

lemma and_then_running: "running st \<Longrightarrow> and_then st f = f st"
  by (auto simp: and_then_def running_def)

lemma Rect_SetRGBA [simp]: "Rect (SetRGBA m x y c) = Rect m"
  by (simp add: SetRGBA_def)

lemma Rect_fold_SetRGBA:
  "Rect (fold (\<lambda>(p, c) m'. SetRGBA m' (fst p) (snd p) c) ws m) = Rect m"
  by (induction ws arbitrary: m) (auto split: prod.splits)

lemma Rect_run_closure [simp]: "Rect (fst (run_closure d m)) = Rect m"
  by (simp add: run_closure_def Let_def Rect_fold_SetRGBA split: prod.splits)

text \<open>One serviced message at the inner select.\<close>

lemma serve_serviced:
  assumes "pc st = Inner" and "fits (Bounds (img st))" and "serviced m"
  shows "pc (serve m st) = Inner \<and> fits (Bounds (img (serve m st))) \<and>
         img (serve m st) = surface_after (img st) [m] \<and>
         totalR (serve m st) = foldl Rectangle_Union (totalR st) (reported (img st) [m])"
proof (cases m)
  case (NewSize r)
  with assms(3) have "fits r" by simp
  then obtain new where new: "resizeImage (img st) r = Inr new"
    using resizeImage_fits by blast
  have "running st" using assms(1) by (simp add: running_def)
  from on_newSize_img[OF new this] resizeImage_Rect[OF new] new assms(1) NewSize
  show ?thesis by (simp add: serve_def Bounds_def)
next
  case (DrawFn d)
  with assms show ?thesis
    by (simp add: serve_def on_draw_def Bounds_def case_prod_unfold Let_def)
next
  case (GLFn g)
  let ?s = "gl [CallGL g] st"
  let ?s1 = "openGLRenderGui (totalR st) ?s"
  have f: "fits (Bounds (img ?s))" using assms(2) by simp
  note k = openGLRenderGui_fields[OF f, of "totalR st"]
  have k1: "img ?s1 = img st" using k(1) by simp
  have k2: "totalR ?s1 = totalR st" using k(2) by (simp add: gl_def)
  have k3: "pc ?s1 = Inner" using k(3) assms(1) by (simp add: gl_def)
  have r: "running ?s1" using k3 by (simp add: running_def)
  have e: "serve m st = gl [SwapBuffers] ?s1"
    using GLFn by (simp add: serve_def on_drawGL_def and_then_running[OF r])
  show ?thesis
    unfolding e using k1 k2 k3 assms(2) GLFn by (simp add: gl_def)
qed (use assms in auto)

lemma serve_p2_serviced:
  assumes "pc st = Inner" and "fits (Bounds (img st))" and "serviced_p2 m"
  shows "pc (serve_p2 m st) = Inner \<and> fits (Bounds (img (serve_p2 m st))) \<and>
         img (serve_p2 m st) = surface_after (img st) [m] \<and>
         totalR (serve_p2 m st) = foldl Rectangle_Union (totalR st) (reported (img st) [m])"
proof (cases m)
  case (NewSize r)
  with assms(3) have "fits r" by simp
  then obtain new where new: "resizeImage (img st) r = Inr new"
    using resizeImage_fits by blast
  from on_newSize_p2_img[OF new] resizeImage_Rect[OF new] new assms(1) NewSize
  show ?thesis by (simp add: serve_p2_def Bounds_def)
next
  case (DrawFn d)
  with assms show ?thesis
    by (simp add: serve_p2_def on_draw_def Bounds_def case_prod_unfold Let_def)
qed (use assms in auto)

lemma reported_Cons:
  "serviced m \<Longrightarrow> reported s (m # ms) = reported s [m] @ reported (surface_after s [m]) ms"
  by (cases m) simp_all

lemma surface_after_Cons:
  "surface_after s (m # ms) = surface_after (surface_after s [m]) ms"
  by (cases m) simp_all

lemma serviced_p2_serviced: "serviced_p2 m \<Longrightarrow> serviced m"
  by (cases m) simp_all

lemma inner_run:
  assumes "pc st = Inner" and "fits (Bounds (img st))" and "\<forall>m\<in>set ms. serviced m"
  shows "pc (openGLThread_loop st ms) = Inner \<and> fits (Bounds (img (openGLThread_loop st ms))) \<and>
         img (openGLThread_loop st ms) = surface_after (img st) ms \<and>
         totalR (openGLThread_loop st ms) = foldl Rectangle_Union (totalR st) (reported (img st) ms)"
  using assms
proof (induction ms arbitrary: st)
  case Nil
  then show ?case by simp
next
  case (Cons m ms)
  have m: "serviced m" using Cons.prems(3) by simp
  have step: "openGLThread_step st m = serve m st"
    using Cons.prems(1) by (simp add: openGLThread_step_def)
  note s = serve_serviced[OF Cons.prems(1,2) m]
  have s1: "pc (serve m st) = Inner" and s2: "fits (Bounds (img (serve m st)))"
    and e1: "img (serve m st) = surface_after (img st) [m]"
    and e2: "totalR (serve m st) = foldl Rectangle_Union (totalR st) (reported (img st) [m])"
    using s by blast+
  have rest: "\<forall>m\<in>set ms. serviced m" using Cons.prems(3) by simp
  note ih = Cons.IH[OF s1 s2 rest]
  have L: "openGLThread_loop st (m # ms) = openGLThread_loop (serve m st) ms" by (simp add: step)
  have A: "surface_after (img st) (m # ms) = surface_after (img (serve m st)) ms"
    by (simp only: surface_after_Cons[of "img st" m ms] e1)
  have R: "foldl Rectangle_Union (totalR st) (reported (img st) (m # ms)) =
           foldl Rectangle_Union (totalR (serve m st)) (reported (img (serve m st)) ms)"
    by (simp only: reported_Cons[OF m, of "img st" ms] foldl_append e1 e2)
  show ?case unfolding L A R by (rule ih)
qed

lemma inner_run_p2:
  assumes "pc st = Inner" and "fits (Bounds (img st))" and "\<forall>m\<in>set ms. serviced_p2 m"
  shows "pc (openGLThread_p2_loop st ms) = Inner \<and> fits (Bounds (img (openGLThread_p2_loop st ms))) \<and>
         img (openGLThread_p2_loop st ms) = surface_after (img st) ms \<and>
         totalR (openGLThread_p2_loop st ms) = foldl Rectangle_Union (totalR st) (reported (img st) ms)"
  using assms
proof (induction ms arbitrary: st)
  case Nil
  then show ?case by simp
next
  case (Cons m ms)
  have m: "serviced_p2 m" using Cons.prems(3) by simp
  have step: "openGLThread_p2_step st m = serve_p2 m st"
    using Cons.prems(1) by (simp add: openGLThread_p2_step_def)
  note s = serve_p2_serviced[OF Cons.prems(1,2) m]
  have s1: "pc (serve_p2 m st) = Inner" and s2: "fits (Bounds (img (serve_p2 m st)))"
    and e1: "img (serve_p2 m st) = surface_after (img st) [m]"
    and e2: "totalR (serve_p2 m st) = foldl Rectangle_Union (totalR st) (reported (img st) [m])"
    using s by blast+
  have rest: "\<forall>m\<in>set ms. serviced_p2 m" using Cons.prems(3) by simp
  note ih = Cons.IH[OF s1 s2 rest]
  have L: "openGLThread_p2_loop st (m # ms) = openGLThread_p2_loop (serve_p2 m st) ms" by (simp add: step)
  have A: "surface_after (img st) (m # ms) = surface_after (img (serve_p2 m st)) ms"
    by (simp only: surface_after_Cons[of "img st" m ms] e1)
  have R: "foldl Rectangle_Union (totalR st) (reported (img st) (m # ms)) =
           foldl Rectangle_Union (totalR (serve_p2 m st)) (reported (img (serve_p2 m st)) ms)"
    by (simp only: reported_Cons[OF serviced_p2_serviced[OF m], of "img st" ms] foldl_append e1 e2)
  show ?case unfolding L A R by (rule ih)
qed

lemma openGLThread_loop_append:
  "openGLThread_loop st (ms @ ns) = openGLThread_loop (openGLThread_loop st ms) ns"
  by (induction ms arbitrary: st) simp_all

lemma openGLThread_p2_loop_append:
  "openGLThread_p2_loop st (ms @ ns) = openGLThread_p2_loop (openGLThread_p2_loop st ms) ns"
  by (induction ms arbitrary: st) simp_all

text \<open>The first message after a flush is taken at the outer select, with the damage
  declared afresh.\<close>

lemma outer_step:
  assumes "pc st = Outer" and "serviced m"
  shows "openGLThread_step st m = serve m (st\<lparr>totalR := ZR, pc := Inner\<rparr>)"
proof -
  let ?a = "st\<lparr>totalR := ZR\<rparr>" and ?b = "st\<lparr>totalR := ZR, pc := Inner\<rparr>"
  have ab: "?b = ?a\<lparr>pc := Inner\<rparr>" by simp
  show ?thesis
  proof (cases m)
    case (NewSize r)
    with assms(2) have "fits r" by simp
    then obtain new where new: "resizeImage (img st) r = Inr new"
      using resizeImage_fits by blast
    have "openGLThread_step st m = (on_newSize r ?a)\<lparr>pc := Inner\<rparr>"
      using assms(1) NewSize new on_newSize_img[of ?a r new]
      by (simp add: openGLThread_step_def serve_def running_def Let_def)
    also have "\<dots> = on_newSize r ?b"
      using new fits_image_Rect[of "Bounds new"] resizeImage_Rect[OF new] assms(1)
      by (simp add: on_newSize_def Let_def newScreenTexture_def NewRGBA_fits Bounds_def gl_def
          and_then_def)
    finally show ?thesis using NewSize by (simp add: serve_def)
  next
    case (DrawFn d)
    then show ?thesis
      using assms(1)
      by (simp add: openGLThread_step_def serve_def on_draw_def Let_def case_prod_unfold)
  next
    case (GLFn g)
    have e: "openGLRenderGui ZR s = s" for s
      by (simp add: openGLRenderGui_def Rectangle_Intersect_def Rectangle_Empty_def ZR_def Let_def)
    show ?thesis
      using assms(1) GLFn
      by (simp add: openGLThread_step_def serve_def on_drawGL_def e and_then_def gl_def Let_def)
  qed (use assms in auto)
qed

lemma outer_step_p2:
  assumes "pc st = Outer" and "serviced_p2 m"
  shows "openGLThread_p2_step st m = serve_p2 m (st\<lparr>totalR := ZR, pc := Inner\<rparr>)"
proof (cases m)
  case (NewSize r)
  with assms(2) have "fits r" by simp
  then obtain new where new: "resizeImage (img st) r = Inr new"
    using resizeImage_fits by blast
  show ?thesis
    using assms(1) NewSize new
    by (simp add: openGLThread_p2_step_def serve_p2_def on_newSize_p2_def Let_def)
next
  case (DrawFn d)
  then show ?thesis
    using assms(1)
    by (simp add: openGLThread_p2_step_def serve_p2_def on_draw_def Let_def case_prod_unfold)
qed (use assms in auto)

lemma outer_run:
  assumes "pc st = Outer" and "fits (Bounds (img st))" and "ms \<noteq> []" and "\<forall>m\<in>set ms. serviced m"
  shows "pc (openGLThread_loop st ms) = Inner \<and> fits (Bounds (img (openGLThread_loop st ms))) \<and>
         img (openGLThread_loop st ms) = surface_after (img st) ms \<and>
         totalR (openGLThread_loop st ms) = union_of (reported (img st) ms)"
proof -
  from assms(3) obtain m ns where ms: "ms = m # ns" by (cases ms) auto
  let ?b = "st\<lparr>totalR := ZR, pc := Inner\<rparr>"
  have m: "serviced m" using assms(4) ms by simp
  have "openGLThread_loop st ms = openGLThread_loop (serve m ?b) ns"
    using outer_step[OF assms(1) m] ms by simp
  also have "\<dots> = openGLThread_loop ?b ms"
    by (simp add: ms openGLThread_step_def)
  finally have e: "openGLThread_loop st ms = openGLThread_loop ?b ms" .
  have "pc ?b = Inner" "fits (Bounds (img ?b))" using assms(2) by simp_all
  note i = inner_run[OF this assms(4), simplified]
  show ?thesis
    unfolding e union_of_def using i by blast
qed

lemma outer_run_p2:
  assumes "pc st = Outer" and "fits (Bounds (img st))" and "ms \<noteq> []"
    and "\<forall>m\<in>set ms. serviced_p2 m"
  shows "pc (openGLThread_p2_loop st ms) = Inner \<and>
         fits (Bounds (img (openGLThread_p2_loop st ms))) \<and>
         img (openGLThread_p2_loop st ms) = surface_after (img st) ms \<and>
         totalR (openGLThread_p2_loop st ms) = union_of (reported (img st) ms)"
proof -
  from assms(3) obtain m ns where ms: "ms = m # ns" by (cases ms) auto
  let ?b = "st\<lparr>totalR := ZR, pc := Inner\<rparr>"
  have m: "serviced_p2 m" using assms(4) ms by simp
  have "openGLThread_p2_loop st ms = openGLThread_p2_loop (serve_p2 m ?b) ns"
    using outer_step_p2[OF assms(1) m] ms by simp
  also have "\<dots> = openGLThread_p2_loop ?b ms"
    by (simp add: ms openGLThread_p2_step_def)
  finally have e: "openGLThread_p2_loop st ms = openGLThread_p2_loop ?b ms" .
  have "pc ?b = Inner" "fits (Bounds (img ?b))" using assms(2) by simp_all
  note i = inner_run_p2[OF this assms(4), simplified]
  show ?thesis
    unfolding e union_of_def using i by blast
qed

text \<open>The timer at the inner select.\<close>

lemma timer_step:
  assumes "pc st = Inner" and "fits (Bounds (img st))"
  shows "openGLThread_step st Tick =
           (gl [SwapBuffers]
              (openGLRenderGui (Rectangle_Intersect (totalR st) (Bounds (img st))) st))
           \<lparr>totalR := ZR, pc := Outer\<rparr>"
proof -
  have "running (openGLRenderGui (totalR st) st)"
    using openGLRenderGui_fields(3)[OF assms(2), of "totalR st"] assms(1)
    by (simp add: running_def)
  then show ?thesis
    using assms(1) openGLRenderGui_clip[of "totalR st" st]
    by (simp add: openGLThread_step_def serve_def on_timer_def and_then_running)
qed

lemma timer_step_p2:
  assumes "pc st = Inner" and "fits (Bounds (img st))"
  shows "openGLThread_p2_step st Tick =
           (openGLFlush (Rectangle_Intersect (totalR st) (Bounds (img st))) st)
           \<lparr>totalR := ZR, pc := Outer\<rparr>"
proof -
  have "running (openGLFlush (totalR st) st)"
    using openGLFlush_fields(3)[OF assms(2), of "totalR st"] assms(1)
    by (simp add: running_def)
  then show ?thesis
    using assms(1) openGLFlush_clip[of "totalR st" st]
    by (simp add: openGLThread_p2_step_def serve_p2_def on_timer_p2_def and_then_running)
qed

text \<open>
  Claim C1. Start where the render thread waits after a flush (or after its start), and let
  it service any non-empty sequence of draw closures and new sizes (and, in the variant
  that has them, GPU closures). Then the damage it has accumulated is the union of the
  rectangles the closures returned and of the new sizes, and the flush the timer then
  triggers is the flush of that union intersected with the bounds the surface has at that
  moment. Stated for both variants (\<open>ms\<close> for the one with GPU closures, \<open>ns\<close> for the
  other).
\<close>

theorem flush_damage_is_union:
  assumes "pc st = Outer" and "fits (Bounds (img st))"
    and "ms \<noteq> []" and "\<forall>m\<in>set ms. serviced m"
    and "ns \<noteq> []" and "\<forall>m\<in>set ns. serviced_p2 m"
  shows "totalR (openGLThread_loop st ms) = union_of (reported (img st) ms) \<and>
         openGLThread_loop st (ms @ [Tick]) =
           (gl [SwapBuffers]
              (openGLRenderGui
                 (Rectangle_Intersect (union_of (reported (img st) ms))
                    (Bounds (img (openGLThread_loop st ms))))
                 (openGLThread_loop st ms)))
           \<lparr>totalR := ZR, pc := Outer\<rparr> \<and>
         totalR (openGLThread_p2_loop st ns) = union_of (reported (img st) ns) \<and>
         openGLThread_p2_loop st (ns @ [Tick]) =
           (openGLFlush
              (Rectangle_Intersect (union_of (reported (img st) ns))
                 (Bounds (img (openGLThread_p2_loop st ns))))
              (openGLThread_p2_loop st ns))
           \<lparr>totalR := ZR, pc := Outer\<rparr>"
proof -
  note a = outer_run[OF assms(1,2,3,4)]
  note b = outer_run_p2[OF assms(1,2,5,6)]
  have a1: "pc (openGLThread_loop st ms) = Inner"
    and a2: "fits (Bounds (img (openGLThread_loop st ms)))"
    and a3: "totalR (openGLThread_loop st ms) = union_of (reported (img st) ms)"
    using a by blast+
  have b1: "pc (openGLThread_p2_loop st ns) = Inner"
    and b2: "fits (Bounds (img (openGLThread_p2_loop st ns)))"
    and b3: "totalR (openGLThread_p2_loop st ns) = union_of (reported (img st) ns)"
    using b by blast+
  show ?thesis
    using timer_step[OF a1 a2] timer_step_p2[OF b1 b2] a3 b3
    by (simp add: openGLThread_loop_append openGLThread_p2_loop_append)
qed

lemma thread0_Outer: "pc thread0 = Outer"
  by (simp add: thread0_def)

lemma thread0_fits: "fits (Bounds (img thread0))"
  by (simp add: thread0_def surface0_def Bounds_def fits_def image_Rect_def Rectangle_Dx_def
      Rectangle_Dy_def)

theorem flush_damage_is_union_witness:
  "pc thread0 = Outer \<and> fits (Bounds (img thread0)) \<and>
   serviced (DrawFn dot) \<and> serviced (GLFn 7) \<and> serviced (DrawFn corner) \<and>
   serviced_p2 (DrawFn dot) \<and> serviced_p2 (NewSize (image_Rect 0 0 1 5)) \<and>
   totalR (openGLThread_loop thread0 [DrawFn dot, GLFn 7, DrawFn corner]) = image_Rect 0 0 3 2 \<and>
   totalR (openGLThread_p2_loop thread0 [DrawFn dot, NewSize (image_Rect 0 0 1 5)]) =
     image_Rect 0 0 3 5"
proof -
  have f: "fits (image_Rect 0 0 1 5)"
    by (simp add: fits_def image_Rect_def Rectangle_Dx_def Rectangle_Dy_def)
  have a: "[DrawFn dot, GLFn 7, DrawFn corner] \<noteq> []" by simp
  have b: "\<forall>m\<in>set [DrawFn dot, GLFn 7, DrawFn corner]. serviced m" by simp
  have c: "[DrawFn dot, NewSize (image_Rect 0 0 1 5)] \<noteq> []" by simp
  have d: "\<forall>m\<in>set [DrawFn dot, NewSize (image_Rect 0 0 1 5)]. serviced_p2 m"
    using f by simp
  note t = flush_damage_is_union[OF thread0_Outer thread0_fits a b c d]
  have u1: "union_of (reported (img thread0) [DrawFn dot, GLFn 7, DrawFn corner]) =
            image_Rect 0 0 3 2"
    by (simp add: union_of_def run_closure_def dot_def corner_def Rectangle_Union_def
        Rectangle_Empty_def image_Rect_def ZR_def)
  have u2: "union_of (reported (img thread0) [DrawFn dot, NewSize (image_Rect 0 0 1 5)]) =
            image_Rect 0 0 3 5"
    by (simp add: union_of_def run_closure_def dot_def Rectangle_Union_def
        Rectangle_Empty_def image_Rect_def ZR_def)
  from t have "totalR (openGLThread_loop thread0 [DrawFn dot, GLFn 7, DrawFn corner]) =
      union_of (reported (img thread0) [DrawFn dot, GLFn 7, DrawFn corner])"
    and "totalR (openGLThread_p2_loop thread0 [DrawFn dot, NewSize (image_Rect 0 0 1 5)]) =
      union_of (reported (img thread0) [DrawFn dot, NewSize (image_Rect 0 0 1 5)])"
    by blast+
  then show ?thesis
    using u1 u2 thread0_Outer thread0_fits f by simp
qed

section \<open>Growth and reset of the damage\<close>

text \<open>
  Claim C2, as amended. While the render thread is in its inner loop, servicing a draw
  closure, a new size or a GPU closure never shrinks the damage rectangle; the flush the
  timer triggers resets it to the zero rectangle; the composite pass that follows a GPU
  closure leaves it as it is; and the rectangle a flush works on, the damage intersected
  with the bounds of the surface, lies within these bounds.
\<close>

theorem damage_grows_and_resets:
  assumes "pc st = Inner" and "fits (Bounds (img st))" and "serviced m" and "serviced_p2 n"
  shows "Rectangle_In (totalR st) (totalR (openGLThread_step st m)) \<and>
         Rectangle_In (totalR st) (totalR (openGLThread_p2_step st n)) \<and>
         totalR (openGLThread_step st Tick) = ZR \<and>
         totalR (openGLThread_p2_step st Tick) = ZR \<and>
         totalR (openGLThread_step st (GLFn g)) = totalR st \<and>
         Rectangle_In (Rectangle_Intersect r (Bounds (img st))) (Bounds (img st))"
proof -
  have sm: "openGLThread_step st m = serve m st"
    using assms(1) by (simp add: openGLThread_step_def)
  have sn: "openGLThread_p2_step st n = serve_p2 n st"
    using assms(1) by (simp add: openGLThread_p2_step_def)
  have sg: "openGLThread_step st (GLFn g) = serve (GLFn g) st"
    using assms(1) by (simp add: openGLThread_step_def)
  have grow: "Rectangle_In a (foldl Rectangle_Union a (reported s [k]))" for a s k
    by (cases k) (simp_all add: Rectangle_In_Union Rectangle_In_refl)
  have 1: "Rectangle_In (totalR st) (totalR (openGLThread_step st m))"
    using serve_serviced[OF assms(1,2,3)] grow[of "totalR st" "img st" m] by (simp add: sm)
  have 2: "Rectangle_In (totalR st) (totalR (openGLThread_p2_step st n))"
    using serve_p2_serviced[OF assms(1,2,4)] grow[of "totalR st" "img st" n] by (simp add: sn)
  have 3: "totalR (openGLThread_step st Tick) = ZR"
    by (simp add: timer_step[OF assms(1,2)])
  have 4: "totalR (openGLThread_p2_step st Tick) = ZR"
    by (simp add: timer_step_p2[OF assms(1,2)])
  have 5: "totalR (openGLThread_step st (GLFn g)) = totalR st"
    using serve_serviced[OF assms(1,2), of "GLFn g"] by (simp add: sg)
  from 1 2 3 4 5 Rectangle_In_Intersect show ?thesis by blast
qed

lemma thread0_draw:
  "openGLThread_step thread0 (DrawFn dot) =
     thread0\<lparr>img := SetRGBA surface0 2 1 red, totalR := image_Rect 2 1 3 2, pc := Inner\<rparr>"
  by (simp add: openGLThread_step_def thread0_def serve_def on_draw_def run_closure_def dot_def
      Rectangle_Union_def Rectangle_Empty_def ZR_def)

lemma thread1_fields:
  "pc thread1 = Inner" "totalR thread1 = image_Rect 2 1 3 2" "fits (Bounds (img thread1))"
  "gl_log thread1 = []"
  unfolding thread1_def openGLThread_loop.simps thread0_draw
  by (simp_all add: thread0_def surface0_def Bounds_def fits_def
      image_Rect_def Rectangle_Dx_def Rectangle_Dy_def)

text \<open>
  Claim C2 as stated fails for the composite pass after a GPU closure: after a draw closure
  that reports the rectangle \<open>(2, 1)-(3, 2)\<close> and a GPU closure, the pass has run (it has
  uploaded that rectangle and ends with a buffer swap), and the damage is still
  \<open>(2, 1)-(3, 2)\<close>, not the empty rectangle.
\<close>

theorem damage_not_reset_after_gl_pass:
  "totalR (openGLThread_loop thread0 [DrawFn dot, GLFn 7]) = image_Rect 2 1 3 2 \<and>
   image_Rect 2 1 3 2 \<noteq> ZR \<and>
   take 2 (gl_log (openGLThread_loop thread0 [DrawFn dot, GLFn 7])) =
     [CallGL 7, TextureSubImage2D 1 2 1 1 1 [red]] \<and>
   last (gl_log (openGLThread_loop thread0 [DrawFn dot, GLFn 7])) = SwapBuffers"
  apply (simp add: thread0_draw)
  apply (simp add: openGLThread_step_def serve_def on_drawGL_def openGLRenderGui_def and_then_def
      Let_def thread0_def surface0_def Bounds_def gl_def for_range_2 renderGuiPass_def
      Rectangle_Intersect_def Rectangle_Empty_def image_Rect_def ZR_def NewRGBA_def
      Rectangle_Dx_def Rectangle_Dy_def draw_Draw_Src_def Pix_rows_def RGBAAt_def SetRGBA_def
      Point_In_def Rectangle_Add_def int32_def red_def)
  done

theorem damage_grows_and_resets_witness:
  "pc thread1 = Inner \<and> fits (Bounds (img thread1)) \<and>
   serviced (DrawFn corner) \<and> serviced_p2 (DrawFn corner) \<and>
   totalR thread1 = image_Rect 2 1 3 2 \<and>
   Rectangle_In (image_Rect 2 1 3 2) (totalR (openGLThread_step thread1 (DrawFn corner))) \<and>
   Rectangle_In (image_Rect 2 1 3 2) (totalR (openGLThread_p2_step thread1 (DrawFn corner))) \<and>
   totalR (openGLThread_step thread1 Tick) = ZR \<and>
   totalR (openGLThread_p2_step thread1 Tick) = ZR \<and>
   totalR (openGLThread_step thread1 (GLFn 7)) = image_Rect 2 1 3 2 \<and>
   Rectangle_In (Rectangle_Intersect (image_Rect 3 2 9 9) (Bounds (img thread1))) (Bounds (img thread1))"
  using damage_grows_and_resets[OF thread1_fields(1) thread1_fields(3), of "DrawFn corner"
      "DrawFn corner" 7 "image_Rect 3 2 9 9"] thread1_fields
  by simp

section \<open>The composite pass after a GPU closure\<close>

lemma issued_gl [simp]: "issued (gl cs) st = cs"
  by (simp add: issued_def gl_def)

lemma openGLRenderGui_log:
  "gl_log (openGLRenderGui r (st\<lparr>gl_log := l\<rparr>)) = l @ issued (openGLRenderGui r) st"
  by (simp add: issued_def openGLRenderGui_def Let_def for_range_2 renderGuiPass_def gl_def
      split: sum.splits)

lemma openGLFlush_log:
  "gl_log (openGLFlush r (st\<lparr>gl_log := l\<rparr>)) = l @ issued (openGLFlush r) st"
  by (simp add: issued_def openGLFlush_def Let_def gl_def split: sum.splits)

lemma issued_openGLRenderGui_indep:
  "issued (openGLRenderGui r) (st\<lparr>totalR := t, pc := p\<rparr>) = issued (openGLRenderGui r) st"
  by (auto simp: issued_def openGLRenderGui_def Let_def for_range_2 renderGuiPass_def gl_def
      split: sum.splits)

text \<open>
  Claim C6. In the variant with GPU closures, wherever the render thread waits (outer or
  inner select), receiving a GPU closure makes it issue, in this order and with nothing in
  between or after: the closure's own commands, the commands of \<open>openGLRenderGui\<close> for
  the damage accumulated so far (the zero rectangle at the outer select), and one buffer
  swap. Only then is it back at the inner select, waiting for the next message or the timer.
\<close>

theorem gpu_closure_then_composite:
  assumes "running st" and "fits (Bounds (img st))"
  shows "gl_log (openGLThread_step st (GLFn g)) =
           gl_log st @ issued (\<lambda>s. openGLThread_step s (GLFn g)) st \<and>
         issued (\<lambda>s. openGLThread_step s (GLFn g)) st =
           CallGL g # issued (openGLRenderGui (if pc st = Outer then ZR else totalR st)) st
             @ [SwapBuffers] \<and>
         pc (openGLThread_step st (GLFn g)) = Inner"
proof -
  let ?d = "if pc st = Outer then ZR else totalR st"
  let ?a = "st\<lparr>totalR := ?d, pc := Inner\<rparr>"
  have a: "pc ?a = Inner" "fits (Bounds (img ?a))" using assms(2) by simp_all
  have step: "openGLThread_step st (GLFn g) = serve (GLFn g) ?a"
  proof (cases "pc st = Outer")
    case True
    then show ?thesis using outer_step[of st "GLFn g"] by simp
  next
    case False
    with assms(1) have "pc st = Inner" by (simp add: running_def)
    then have "?a = st" by simp
    moreover have "openGLThread_step st (GLFn g) = serve (GLFn g) st"
      using \<open>pc st = Inner\<close> by (simp add: openGLThread_step_def)
    ultimately show ?thesis by (simp only:)
  qed
  let ?s1 = "openGLRenderGui ?d (gl [CallGL g] ?a)"
  have f: "fits (Bounds (img (gl [CallGL g] ?a)))" using assms(2) by simp
  have k3: "pc ?s1 = Inner" using openGLRenderGui_fields(3)[OF f, of ?d] by (simp add: gl_def)
  then have r: "running ?s1" by (simp add: running_def)
  have e: "serve (GLFn g) ?a = gl [SwapBuffers] ?s1"
    by (simp add: serve_def on_drawGL_def and_then_running[OF r])
  have l1: "gl_log ?s1 = (gl_log st @ [CallGL g]) @ issued (openGLRenderGui ?d) ?a"
    using openGLRenderGui_log[where r="?d" and st="?a" and l="gl_log st @ [CallGL g]"] by (simp add: gl_def)
  have i: "issued (openGLRenderGui ?d) ?a = issued (openGLRenderGui ?d) st"
    by (rule issued_openGLRenderGui_indep)
  have l: "gl_log (openGLThread_step st (GLFn g)) =
           gl_log st @ CallGL g # issued (openGLRenderGui ?d) st @ [SwapBuffers]"
    unfolding step e using l1 i by (simp add: gl_def)
  have p: "pc (openGLThread_step st (GLFn g)) = Inner"
    unfolding step e using k3 by (simp add: gl_def)
  from l p show ?thesis by (simp add: issued_def)
qed

lemma thread1_running: "running thread1"
  by (simp add: running_def thread1_fields)

theorem gpu_closure_then_composite_witness:
  "running thread1 \<and> fits (Bounds (img thread1)) \<and> pc thread1 \<noteq> Outer \<and>
   gl_log (openGLThread_step thread1 (GLFn 7)) =
     gl_log thread1 @ issued (\<lambda>s. openGLThread_step s (GLFn 7)) thread1 \<and>
   issued (\<lambda>s. openGLThread_step s (GLFn 7)) thread1 =
     CallGL 7 # issued (openGLRenderGui (totalR thread1)) thread1 @ [SwapBuffers] \<and>
   pc (openGLThread_step thread1 (GLFn 7)) = Inner"
  using gpu_closure_then_composite[OF thread1_running thread1_fields(3), of 7]
    thread1_running thread1_fields
  by simp

section \<open>The commands of a flush\<close>

lemma uploaded_pixels:
  assumes "\<not> Rectangle_Empty r" and "Rectangle_In r (Bounds m)"
  shows "Pix_rows (draw_Draw_Src \<lparr>Rect = r, Pix = (\<lambda>p. transparent)\<rparr> r m (rMin r)) =
         region_pixels m r"
proof -
  let ?tmp = "draw_Draw_Src \<lparr>Rect = r, Pix = (\<lambda>p. transparent)\<rparr> r m (rMin r)"
  have i1: "Rectangle_Intersect r r = r"
    using assms(1) by (simp add: Rectangle_Intersect_def Rectangle_Empty_def Let_def)
  have i2: "Rectangle_Intersect r (Bounds m) = r"
    using assms by (simp add: Rectangle_Intersect_def Rectangle_Empty_def Rectangle_In_def Let_def)
  have px: "RGBAAt ?tmp x y = RGBAAt m x y" if "Point_In (x, y) r" for x y
    using that assms(1)
    by (simp add: draw_Draw_Src_def Let_def Bounds_def i1 i2[unfolded Bounds_def] RGBAAt_def)
  have "map (\<lambda>y. map (\<lambda>x. RGBAAt ?tmp x y) [fst (rMin r) .. fst (rMax r) - 1])
                 [snd (rMin r) .. snd (rMax r) - 1] =
        map (\<lambda>y. map (\<lambda>x. RGBAAt m x y) [fst (rMin r) .. fst (rMax r) - 1])
                 [snd (rMin r) .. snd (rMax r) - 1]"
    unfolding map_eq_conv using px by (auto simp: Point_In_def)
  moreover have "Rect ?tmp = r" by simp
  ultimately show ?thesis
    by (simp only: Pix_rows_def region_pixels_def)
qed

text \<open>
  Claim C7, as amended. In the variant with GPU closures, a flush whose damage rectangle
  overlaps the bounds of the surface uploads the pixels of the overlap, enables depth
  testing, and then runs the same pass twice: a depth clear scissored to the overlap (with
  the vertical coordinate flipped), the compositing program, blending enabled with the
  factors one and one-minus-source-alpha, a draw of triangles from the quad's vertex array
  with the screen texture bound, and a buffer swap. It ends by disabling blending. In the
  other variant the flush uploads the same pixels and draws once, with no blending and no
  scissoring. The vertex count passed to the draw call is left open.
\<close>

theorem composite_commands:
  assumes "fits (Bounds (img st))" and "Rectangle_Overlaps r0 (Bounds (img st))"
  shows "\<exists>count.
    issued (openGLRenderGui r0) st =
      (let r = Rectangle_Intersect r0 (Bounds (img st));
           pass = [Scissor (int32 (fst (rMin r))) (int32 (snd (framebuffer st)) - int32 (snd (rMax r)))
                     (int32 (Rectangle_Dx r)) (int32 (Rectangle_Dy r)),
                   Enable SCISSOR_TEST, Clear_DEPTH_BUFFER_BIT, Disable SCISSOR_TEST,
                   UseProgram (guiShader st),
                   Enable BLEND, BlendFunc ONE ONE_MINUS_SRC_ALPHA,
                   BindVertexArray (quadVao st), ActiveTexture_TEXTURE0,
                   BindTexture_2D (guiTexture st),
                   DrawArrays_TRIANGLES 0 count,
                   SwapBuffers]
       in [TextureSubImage2D (guiTexture st) (int32 (fst (rMin r))) (int32 (snd (rMin r)))
             (int32 (Rectangle_Dx r)) (int32 (Rectangle_Dy r)) (region_pixels (img st) r),
           Enable DEPTH_TEST, DepthFunc_LESS]
          @ pass @ pass @ [Disable BLEND]) \<and>
    issued (openGLFlush r0) st =
      (let r = Rectangle_Intersect r0 (Bounds (img st))
       in [TextureSubImage2D (guiTexture st) (int32 (fst (rMin r))) (int32 (snd (rMin r)))
             (int32 (Rectangle_Dx r)) (int32 (Rectangle_Dy r)) (region_pixels (img st) r),
           UseProgram (guiShader st), BindVertexArray (quadVao st), ActiveTexture_TEXTURE0,
           BindTexture_2D (guiTexture st),
           DrawArrays_TRIANGLES 0 count,
           Flush])"
proof -
  let ?r = "Rectangle_Intersect r0 (Bounds (img st))"
  have ne: "\<not> Rectangle_Empty ?r"
    using assms(2) by (simp add: Intersect_Empty_iff Rectangle_Overlaps_def)
  have new: "NewRGBA ?r = Inr \<lparr>Rect = ?r, Pix = (\<lambda>p. transparent)\<rparr>"
    using assms(1) ne by (simp add: fits_Intersect NewRGBA_fits)
  have px: "Pix_rows (draw_Draw_Src \<lparr>Rect = ?r, Pix = (\<lambda>p. transparent)\<rparr> ?r (img st) (rMin ?r)) =
            region_pixels (img st) ?r"
    using ne Rectangle_In_Intersect by (rule uploaded_pixels)
  show ?thesis
    using ne new px
    by (intro exI[of _ "6 * 2 * 3"])
       (simp add: issued_def openGLRenderGui_def openGLFlush_def Let_def for_range_2
         renderGuiPass_def gl_def)
qed

text \<open>
  Claim C7 as stated fails for the flush of the variant without GPU closures: for a damage
  rectangle inside the surface it neither enables blending nor sets a blend function, and
  draws once.
\<close>

theorem flush_without_blending:
  "Rectangle_Overlaps (image_Rect 1 1 2 2) (Bounds (img thread0)) \<and>
   issued (openGLFlush (image_Rect 1 1 2 2)) thread0 =
     [TextureSubImage2D 1 1 1 1 1 [red], UseProgram 2, BindVertexArray 3,
      ActiveTexture_TEXTURE0, BindTexture_2D 1, DrawArrays_TRIANGLES 0 36, Flush] \<and>
   Enable BLEND \<notin> set (issued (openGLFlush (image_Rect 1 1 2 2)) thread0)"
  by (simp add: issued_def openGLFlush_def Let_def thread0_def surface0_def Bounds_def gl_def
      Rectangle_Intersect_def Rectangle_Empty_def Rectangle_Overlaps_def image_Rect_def ZR_def
      NewRGBA_def Rectangle_Dx_def Rectangle_Dy_def draw_Draw_Src_def Pix_rows_def RGBAAt_def
      Point_In_def Rectangle_Add_def int32_def)

lemma thread0_overlap: "Rectangle_Overlaps (image_Rect 1 1 9 2) (Bounds (img thread0))"
  by (simp add: thread0_def surface0_def Bounds_def Rectangle_Overlaps_def Rectangle_Empty_def
      image_Rect_def)

theorem composite_commands_witness:
  "fits (Bounds (img thread0)) \<and> Rectangle_Overlaps (image_Rect 1 1 9 2) (Bounds (img thread0)) \<and>
   (\<exists>count.
      issued (openGLRenderGui (image_Rect 1 1 9 2)) thread0 =
        [TextureSubImage2D 1 1 1 3 1 [red, transparent, transparent],
         Enable DEPTH_TEST, DepthFunc_LESS,
         Scissor 1 1 3 1, Enable SCISSOR_TEST, Clear_DEPTH_BUFFER_BIT, Disable SCISSOR_TEST,
         UseProgram 2, Enable BLEND, BlendFunc ONE ONE_MINUS_SRC_ALPHA, BindVertexArray 3,
         ActiveTexture_TEXTURE0, BindTexture_2D 1, DrawArrays_TRIANGLES 0 count, SwapBuffers,
         Scissor 1 1 3 1, Enable SCISSOR_TEST, Clear_DEPTH_BUFFER_BIT, Disable SCISSOR_TEST,
         UseProgram 2, Enable BLEND, BlendFunc ONE ONE_MINUS_SRC_ALPHA, BindVertexArray 3,
         ActiveTexture_TEXTURE0, BindTexture_2D 1, DrawArrays_TRIANGLES 0 count, SwapBuffers,
         Disable BLEND] \<and>
      issued (openGLFlush (image_Rect 1 1 9 2)) thread0 =
        [TextureSubImage2D 1 1 1 3 1 [red, transparent, transparent],
         UseProgram 2, BindVertexArray 3, ActiveTexture_TEXTURE0, BindTexture_2D 1,
         DrawArrays_TRIANGLES 0 count, Flush])"
proof -
  have r: "Rectangle_Intersect (image_Rect 1 1 9 2) (Bounds (img thread0)) = image_Rect 1 1 4 2"
    by (simp add: thread0_def surface0_def Bounds_def Rectangle_Intersect_def Rectangle_Empty_def
        image_Rect_def Let_def)
  have p: "region_pixels (img thread0) (image_Rect 1 1 4 2) = [red, transparent, transparent]"
    by (simp add: region_pixels_def thread0_def surface0_def image_Rect_def RGBAAt_def Point_In_def
        upto.simps)
  show ?thesis
    using composite_commands[OF thread0_fits thread0_overlap] thread0_fits thread0_overlap
    unfolding r p Let_def
    by (simp add: image_Rect_def Rectangle_Dx_def Rectangle_Dy_def int32_def thread0_def)
qed

section \<open>Shutdown, thread by thread\<close>

text \<open>
  Whatever the sequence of receives, the render thread executes \<^verbatim>\<open>close(w.finish)\<close> at
  most once, because it returns right after: a second closed channel is never looked at.
  The event thread closes the event channel and destroys the window once if it finds
  \<^verbatim>\<open>w.finish\<close> closed and never otherwise. How the two threads and the caller interleave
  is outside these statements.
\<close>

lemma loop_stopped:
  "\<not> running st \<Longrightarrow> openGLThread_loop st ms = st"
proof (induction ms)
  case Nil
  then show ?case by simp
next
  case (Cons m ms)
  then have "openGLThread_step st m = st"
    by (cases "pc st") (auto simp: running_def openGLThread_step_def)
  with Cons show ?case by simp
qed

lemma finish_closed_openGLRenderGui [simp]:
  "finish_closed (openGLRenderGui r st) = finish_closed st"
  by (simp add: openGLRenderGui_def Let_def for_range_2 renderGuiPass_def gl_def split: sum.splits)

lemma finish_closed_and_then:
  "(\<And>s. finish_closed (f s) = finish_closed s) \<Longrightarrow> finish_closed (and_then st f) = finish_closed st"
  by (simp add: and_then_def split: place.splits)

lemma finish_closed_newScreenTexture [simp]:
  "finish_closed (fst (newScreenTexture c a b st)) = finish_closed st"
  by (simp add: newScreenTexture_def Let_def gl_def split: sum.splits)

lemma finish_closed_serve:
  "finish_closed (serve m st) =
     (if m = DrawClosed \<or> m = GLClosed then Suc (finish_closed st) else finish_closed st)"
proof (cases m)
  case (NewSize r)
  then show ?thesis
    by (simp add: serve_def on_newSize_def Let_def case_prod_unfold finish_closed_and_then gl_def
        split: sum.splits)
next
  case (DrawFn d)
  then show ?thesis by (simp add: serve_def on_draw_def Let_def case_prod_unfold)
next
  case (GLFn g)
  then show ?thesis
    by (simp add: serve_def on_drawGL_def finish_closed_and_then gl_def)
next
  case Tick
  then show ?thesis
    by (simp add: serve_def on_timer_def finish_closed_and_then gl_def)
qed (simp_all add: serve_def on_closed_def)

lemma pc_serve_closed:
  "m = DrawClosed \<or> m = GLClosed \<Longrightarrow> pc (serve m st) = Returned"
  by (auto simp: serve_def on_closed_def)

lemma step_finish:
  "finish_closed (openGLThread_step st m) = finish_closed st \<or>
   finish_closed (openGLThread_step st m) = Suc (finish_closed st) \<and>
     pc (openGLThread_step st m) = Returned"
proof (cases "pc st")
  case Outer
  show ?thesis
  proof (cases "m = DrawClosed \<or> m = GLClosed")
    case True
    then show ?thesis using Outer
      by (auto simp: openGLThread_step_def serve_def on_closed_def)
  next
    case False
    then show ?thesis using Outer finish_closed_serve[of m "st\<lparr>totalR := ZR\<rparr>"]
      by (cases m) (auto simp: openGLThread_step_def Let_def)
  qed
next
  case Inner
  then show ?thesis
    using finish_closed_serve[of m st] pc_serve_closed[of m st]
    by (auto simp: openGLThread_step_def)
qed (simp_all add: openGLThread_step_def)

lemma finish_closed_at_most_once:
  "finish_closed (openGLThread_loop st ms) \<le> Suc (finish_closed st)"
proof (induction ms arbitrary: st)
  case Nil
  then show ?case by simp
next
  case (Cons m ms)
  from step_finish[of st m] show ?case
  proof
    assume "finish_closed (openGLThread_step st m) = finish_closed st"
    with Cons.IH[of "openGLThread_step st m"] show ?thesis by simp
  next
    assume a: "finish_closed (openGLThread_step st m) = Suc (finish_closed st) \<and>
               pc (openGLThread_step st m) = Returned"
    then have "\<not> running (openGLThread_step st m)" by (simp add: running_def)
    from loop_stopped[OF this] a show ?thesis by simp
  qed
qed

lemma both_channels_closed:
  "running st \<Longrightarrow>
   finish_closed (openGLThread_loop st [DrawClosed, GLClosed]) = Suc (finish_closed st) \<and>
   finish_closed (openGLThread_loop st [GLClosed, DrawClosed]) = Suc (finish_closed st)"
  by (auto simp: running_def openGLThread_step_def serve_def on_closed_def)

lemma poll_returned: "returned s \<Longrightarrow> eventThread_poll w s i = s"
  by (simp add: eventThread_poll_def)

lemma loop_returned: "returned s \<Longrightarrow> eventThread_loop w s ins = s"
  by (induction ins) (simp_all add: poll_returned)

lemma poll_teardown:
  assumes "\<not> returned s" and "a = CloseEventsIn \<or> a = DestroyWindow"
  shows "i \<noteq> FinishClosed \<Longrightarrow> count_list (actions (eventThread_poll w s i)) a = count_list (actions s) a"
    and "count_list (actions (eventThread_poll w s FinishClosed)) a = Suc (count_list (actions s) a)"
    and "returned (eventThread_poll w s FinishClosed)"
  using assms
  by (cases i; auto simp: eventThread_poll_def act_def cursorPosCallback_def mouseButtonCallback_def
        scrollCallback_def charCallback_def keyCallback_def framebufferSizeCallback_def
        closeCallback_def Let_def split: option.splits)+

lemma loop_teardown:
  assumes "\<not> returned s" and "a = CloseEventsIn \<or> a = DestroyWindow"
  shows "count_list (actions (eventThread_loop w s ins)) a =
           count_list (actions s) a + (if FinishClosed \<in> set ins then 1 else 0)"
  using assms(1)
proof (induction ins arbitrary: s)
  case Nil
  then show ?case by simp
next
  case (Cons i ins)
  show ?case
  proof (cases "i = FinishClosed")
    case True
    note p = poll_teardown(2,3)[OF Cons.prems assms(2), of w]
    have "eventThread_loop w (eventThread_poll w s FinishClosed) ins = eventThread_poll w s FinishClosed"
      using p(2) by (rule loop_returned)
    with p(1) True show ?thesis by simp
  next
    case False
    from poll_not_returned[OF False, of w s] Cons.prems
    have n: "\<not> returned (eventThread_poll w s i)" by simp
    from Cons.IH[OF n] poll_teardown(1)[OF Cons.prems assms(2) False, of w] False
    show ?thesis by simp
  qed
qed

lemma teardown_once:
  "count_list (actions (eventThread w ins)) CloseEventsIn = (if FinishClosed \<in> set ins then 1 else 0) \<and>
   count_list (actions (eventThread w ins)) DestroyWindow = (if FinishClosed \<in> set ins then 1 else 0)"
  using loop_teardown[of "\<lparr>moX = 0, moY = 0, actions = [Send (Resize (Bounds (img w)))], returned = False\<rparr>" _ w ins]
  by (simp add: eventThread_def)

end
